theory Spec2Isabelle
  imports Main "HOL-Library.Word"
begin

section \<open>C strings, buffers and diagnostics\<close>

text \<open>
  The adapter of \<^verbatim>\<open>src/util/dict_lmdb.c\<close> works on C strings. A \<open>string\<close> argument of the
  model stands for the memory behind a \<^verbatim>\<open>const char *\<close>: the characters up to the first NUL
  are the C string, and the terminator follows them.
\<close>

type_synonym bytes = "char list"

definition NUL :: char where
  "NUL = CHR 0x00"

definition c_str :: "string \<Rightarrow> string" where
  "c_str s = takeWhile (\<lambda>c. c \<noteq> NUL) s"

definition strlen :: "string \<Rightarrow> nat" where
  "strlen s = length (c_str s)"

text \<open>The \<open>n\<close> bytes an \<^verbatim>\<open>MDB_val\<close> with \<^verbatim>\<open>mv_data = s\<close> and \<^verbatim>\<open>mv_size = n\<close> denotes
  (the characters of the C string, then its terminator).\<close>

definition mem :: "string \<Rightarrow> nat \<Rightarrow> bytes" where
  "mem s n = take n (c_str s @ [NUL])"

text \<open>Modelled from the spec: \<^verbatim>\<open>vstring_strncpy\<close> (vstring.c is not under src/) copies at most
  \<open>len\<close> bytes, stops at a NUL, and leaves a terminator-guaranteed buffer.\<close>

definition vstring_strncpy :: "bytes \<Rightarrow> nat \<Rightarrow> string" where
  "vstring_strncpy src len = takeWhile (\<lambda>c. c \<noteq> NUL) (take len src)"

text \<open>\<^verbatim>\<open>SCOPY(buf, data, size)\<close>: the buffer is allocated when it is null, then overwritten.
  A \<^verbatim>\<open>VSTRING *\<close> is \<open>None\<close> when null, otherwise its content.\<close>

definition SCOPY :: "string option \<Rightarrow> bytes \<Rightarrow> string option" where
  "SCOPY buf mdb_val = Some (vstring_strncpy mdb_val (length mdb_val))"

text \<open>Modelled from the spec: \<^verbatim>\<open>lowercase\<close> (stringops is not under src/) folds the key to
  lower case in place, character by character.\<close>

definition TOLOWER :: "char \<Rightarrow> char" where
  "TOLOWER c = (let n = (of_char c :: nat) in if 65 \<le> n \<and> n \<le> 90 then char_of (n + 32) else c)"

definition lowercase :: "string \<Rightarrow> string" where
  "lowercase s = map TOLOWER (c_str s)"

text \<open>A diagnostic is the format string of the source with its arguments;
  \<open>MDB_STRERROR status\<close> stands for the text \<^verbatim>\<open>mdb_strerror(status)\<close>.\<close>

datatype msg_arg = S string | D int | MDB_STRERROR int

type_synonym msg = "string \<times> msg_arg list"

datatype msg_level = INFO | WARN

text \<open>\<^verbatim>\<open>msg_panic\<close> and \<^verbatim>\<open>msg_fatal\<close> terminate the process: the outcome keeps the
  diagnostic and the state at that moment. \<open>Undefined\<close> is a call that reaches a point from
  which C gives it no behaviour (a signed \<^verbatim>\<open>int\<close> overflows, or a key of more bytes than its
  string has is handed to the engine): the outcome keeps the state at that point.\<close>

datatype ('a, 's) outcome = Return 'a 's | Fatal msg 's | Panic msg 's | Undefined 's

fun final_state :: "('a, 's) outcome \<Rightarrow> 's" where
  "final_state (Return r s) = s"
| "final_state (Fatal m s) = s"
| "final_state (Panic m s) = s"
| "final_state (Undefined s) = s"

fun returns :: "('a, 's) outcome \<Rightarrow> bool" where
  "returns (Return r s) = True"
| "returns (Fatal m s) = False"
| "returns (Panic m s) = False"
| "returns (Undefined s) = False"

section \<open>Flags and constants of the headers\<close>

text \<open>Modelled from the spec: the dictionary option bits of dict.h (not under src/). Each
  \<^verbatim>\<open>DICT_FLAG_*\<close> is one bit of \<^verbatim>\<open>dict->flags\<close>; the flag word is the set of bits that are on,
  so \<^verbatim>\<open>flags & F\<close> is membership, \<^verbatim>\<open>flags |= F\<close> insertion and \<^verbatim>\<open>flags &= ~F\<close> removal.\<close>

datatype dict_flag =
    DICT_FLAG_DUP_WARN
  | DICT_FLAG_DUP_IGNORE
  | DICT_FLAG_DUP_REPLACE
  | DICT_FLAG_TRY0NULL
  | DICT_FLAG_TRY1NULL
  | DICT_FLAG_FIXED
  | DICT_FLAG_LOCK
  | DICT_FLAG_DEBUG
  | DICT_FLAG_FOLD_FIX
  | DICT_FLAG_BULK_UPDATE
  | DICT_FLAG_WORLD_READ
  | DICT_FLAG_OTHER nat

text \<open>Modelled from the spec: the engine's open flags (lmdb.h), the session flag for bulk mode
  (slmdb.h), the two cursor moves (lmdb.h) and the three requests of the locking primitive
  (myflock.h); none of these headers is under src/.\<close>

datatype mdb_flag = MDB_NOSUBDIR | MDB_NOLOCK | MDB_RDONLY | MDB_WRITEMAP

datatype slmdb_flag = SLMDB_FLAG_BULK

datatype MDB_cursor_op = MDB_FIRST | MDB_NEXT

datatype myflock_op = MYFLOCK_OP_NONE | MYFLOCK_OP_SHARED | MYFLOCK_OP_EXCLUSIVE

text \<open>Modelled from the spec: the scan modes FIRST and NEXT of dict.h, the status codes of
  lmdb.h (success, key-exists, not-found), the read-only open mode of fcntl.h and the type
  name of dict_lmdb.h (none is under src/); success is 0 and the other status codes are
  distinct and non-zero.\<close>

definition DICT_SEQ_FUN_FIRST :: int where
  "DICT_SEQ_FUN_FIRST = 0"

definition DICT_SEQ_FUN_NEXT :: int where
  "DICT_SEQ_FUN_NEXT = 1"

definition MDB_SUCCESS :: int where
  "MDB_SUCCESS = 0"

definition MDB_KEYEXIST :: int where
  "MDB_KEYEXIST = - 30799"

definition MDB_NOTFOUND :: int where
  "MDB_NOTFOUND = - 30798"

definition O_RDONLY :: int where
  "O_RDONLY = 0"

definition DICT_TYPE_LMDB :: string where
  "DICT_TYPE_LMDB = ''lmdb''"

text \<open>The build: whether \<^verbatim>\<open>LMDB_NO_TRAILING_NULL\<close> is defined, and the sizes behind
  \<^verbatim>\<open>SSIZE_T_MAX\<close> and \<^verbatim>\<open>DICT_LMDB_BULK_RETRY_LIMIT\<close>: the bytes of \<^verbatim>\<open>size_t\<close> (and of
  \<^verbatim>\<open>ssize_t\<close>, its signed counterpart) and the bits of a byte.\<close>

record platform =
  LMDB_NO_TRAILING_NULL :: bool
  sizeof_size_t :: nat
  CHAR_BIT :: nat

text \<open>Modelled from the spec: \<^verbatim>\<open>__MAXINT__(ssize_t)\<close> (the macro of sys_defs.h is not under
  src/) is the platform's largest representable signed size, in two's complement.\<close>

definition SSIZE_T_MAX :: "platform \<Rightarrow> int" where
  "SSIZE_T_MAX P = 2 ^ (sizeof_size_t P * CHAR_BIT P - 1) - 1"

definition DICT_LMDB_SIZE_INCR :: int where
  "DICT_LMDB_SIZE_INCR = 2"

definition DICT_LMDB_SIZE_MAX :: "platform \<Rightarrow> int" where
  "DICT_LMDB_SIZE_MAX P = SSIZE_T_MAX P"

definition DICT_LMDB_API_RETRY_LIMIT :: int where
  "DICT_LMDB_API_RETRY_LIMIT = 2"

text \<open>\<^verbatim>\<open>((int) (2 * sizeof(size_t) * CHAR_BIT))\<close>: the cast to a 32-bit \<^verbatim>\<open>int\<close> is written out.\<close>

definition DICT_LMDB_BULK_RETRY_LIMIT :: "platform \<Rightarrow> int" where
  "DICT_LMDB_BULK_RETRY_LIMIT P = sint (word_of_nat (2 * sizeof_size_t P * CHAR_BIT P) :: 32 word)"

text \<open>
  The integers of a key's size. \<^verbatim>\<open>int\<close> has 32 bits. \<^verbatim>\<open>int klen = strlen(name)\<close> converts a
  \<^verbatim>\<open>size_t\<close> to \<^verbatim>\<open>int\<close>: a length the \<^verbatim>\<open>int\<close> cannot hold is reduced to its low 32 bits in
  two's complement, as the compilers Postfix is built with define the conversion.
  \<^verbatim>\<open>mdb_key.mv_size = klen + 1\<close> converts an \<^verbatim>\<open>int\<close> to \<^verbatim>\<open>size_t\<close>: the value modulo 2 to the
  number of bits of \<^verbatim>\<open>size_t\<close>, so a negative \<^verbatim>\<open>int\<close> becomes a huge size.
\<close>

definition INT_MAX :: int where
  "INT_MAX = 2 ^ 31 - 1"

definition int_of_size_t :: "nat \<Rightarrow> int" where
  "int_of_size_t n = sint (word_of_nat n :: 32 word)"

definition size_t_of_int :: "platform \<Rightarrow> int \<Rightarrow> nat" where
  "size_t_of_int P i = nat (i mod 2 ^ (sizeof_size_t P * CHAR_BIT P))"

section \<open>The engine binding\<close>

text \<open>
  Modelled from the spec: the engine session of slmdb.c (not under src/), with the primitives
  of the spec's external interface: get(key) gives a status and a value, put(key, value,
  overwrite-flag) and delete(key) a status, cursor-get(FIRST | NEXT) a status, a key and a
  value. An entry is a pair of opaque byte sequences; \<open>db\<close> holds the entries in key order.
  \<open>calls\<close> is the counting seam: every call of a primitive is appended to it. \<open>script\<close> holds
  the environment failures of the coming calls (I/O errors, exhausted retries, rejected
  sizes): each call consumes one element, and a status other than success, not-found and
  key-exists is returned as it is, the database untouched.
\<close>

datatype slmdb_call =
    SLMDB_GET bytes
  | SLMDB_PUT bytes bytes bool
  | SLMDB_DEL bytes
  | SLMDB_CURSOR_GET MDB_cursor_op

record slmdb =
  db :: "(bytes \<times> bytes) list"
  cursor :: "nat option"
  script :: "int list"
  calls :: "slmdb_call list"
  curr_limit :: nat
  size_incr :: int
  hard_limit :: int
  slmdb_lmdb_flags :: "mdb_flag set"
  slmdb_flags :: "slmdb_flag set"
  db_fd :: int
  api_retry_limit :: int
  bulk_retry_limit :: int
  longjmp_fn :: bool
  notify_fn :: bool
  cb_context :: bool

text \<open>Modelled from the spec: the key order of the engine's B-tree (bytewise, a proper prefix
  first), and the insertion and removal of an entry in that order.\<close>

fun key_less :: "bytes \<Rightarrow> bytes \<Rightarrow> bool" where
  "key_less [] [] = False"
| "key_less [] (y # ys) = True"
| "key_less (x # xs) [] = False"
| "key_less (x # xs) (y # ys) =
     ((of_char x :: nat) < of_char y \<or> (x = y \<and> key_less xs ys))"

fun store_put :: "bytes \<Rightarrow> bytes \<Rightarrow> (bytes \<times> bytes) list \<Rightarrow> (bytes \<times> bytes) list" where
  "store_put k v [] = [(k, v)]"
| "store_put k v ((k', v') # es) =
     (if k = k' then (k, v) # es
      else if key_less k k' then (k, v) # (k', v') # es
      else (k', v') # store_put k v es)"

fun store_del :: "bytes \<Rightarrow> (bytes \<times> bytes) list \<Rightarrow> (bytes \<times> bytes) list" where
  "store_del k [] = []"
| "store_del k ((k', v') # es) = (if k = k' then es else (k', v') # store_del k es)"

text \<open>Modelled from the spec: what every primitive does first: it is recorded in \<open>calls\<close>, and
  it takes the environment failure scripted for it, if any (0 is none).\<close>

definition engine_call :: "slmdb \<Rightarrow> slmdb_call \<Rightarrow> int \<times> slmdb" where
  "engine_call s c =
     (let s1 = s\<lparr>calls := calls s @ [c]\<rparr> in
      case script s1 of
        [] \<Rightarrow> (0, s1)
      | e # es \<Rightarrow>
          (if e = 0 \<or> e = MDB_NOTFOUND \<or> e = MDB_KEYEXIST then 0 else e, s1\<lparr>script := es\<rparr>))"

text \<open>Modelled from the spec: get(key) gives success and the value stored under the key, or
  not-found.\<close>

definition slmdb_get :: "slmdb \<Rightarrow> bytes \<Rightarrow> int \<times> bytes \<times> slmdb" where
  "slmdb_get s mdb_key =
     (let (e, s1) = engine_call s (SLMDB_GET mdb_key) in
      if e \<noteq> 0 then (e, [], s1)
      else case map_of (db s1) mdb_key of
             None \<Rightarrow> (MDB_NOTFOUND, [], s1)
           | Some v \<Rightarrow> (0, v, s1))"

text \<open>Modelled from the spec: put(key, value, overwrite-flag) stores the entry; with "reject
  if key exists" (\<^verbatim>\<open>MDB_NOOVERWRITE\<close>, the flag \<open>nooverwrite\<close>) it gives key-exists for a key
  that is there and leaves the entry alone.\<close>

definition slmdb_put :: "slmdb \<Rightarrow> bytes \<Rightarrow> bytes \<Rightarrow> bool \<Rightarrow> int \<times> slmdb" where
  "slmdb_put s mdb_key mdb_value nooverwrite =
     (let (e, s1) = engine_call s (SLMDB_PUT mdb_key mdb_value nooverwrite) in
      if e \<noteq> 0 then (e, s1)
      else if nooverwrite \<and> map_of (db s1) mdb_key \<noteq> None then (MDB_KEYEXIST, s1)
      else (0, s1\<lparr>db := store_put mdb_key mdb_value (db s1)\<rparr>))"

text \<open>Modelled from the spec: delete(key) removes the entry of the key, or gives not-found.\<close>

definition slmdb_del :: "slmdb \<Rightarrow> bytes \<Rightarrow> int \<times> slmdb" where
  "slmdb_del s mdb_key =
     (let (e, s1) = engine_call s (SLMDB_DEL mdb_key) in
      if e \<noteq> 0 then (e, s1)
      else if map_of (db s1) mdb_key = None then (MDB_NOTFOUND, s1)
      else (0, s1\<lparr>db := store_del mdb_key (db s1)\<rparr>))"

text \<open>Modelled from the spec: cursor-get(FIRST | NEXT) moves the cursor of the session to the
  first entry or to the one after the current entry and gives its key and value, or
  not-found past the last entry; NEXT on a fresh cursor is FIRST.\<close>

definition slmdb_cursor_get :: "slmdb \<Rightarrow> MDB_cursor_op \<Rightarrow> int \<times> bytes \<times> bytes \<times> slmdb" where
  "slmdb_cursor_get s op =
     (let (e, s1) = engine_call s (SLMDB_CURSOR_GET op) in
      if e \<noteq> 0 then (e, [], [], s1)
      else let i = (case op of
                      MDB_FIRST \<Rightarrow> 0
                    | MDB_NEXT \<Rightarrow> (case cursor s1 of None \<Rightarrow> 0 | Some j \<Rightarrow> Suc j)) in
           if i < length (db s1)
           then (0, fst (db s1 ! i), snd (db s1 ! i), s1\<lparr>cursor := Some i\<rparr>)
           else (MDB_NOTFOUND, [], [], s1))"

section \<open>The locking primitive and the log\<close>

text \<open>
  Modelled from the spec: \<^verbatim>\<open>myflock\<close> (myflock.c is not under src/) acquires a shared or an
  exclusive whole-file advisory lock on a descriptor, or releases it, and reports success
  or failure. \<open>lock\<close> is what this process holds on each descriptor; \<open>flock_script\<close> says
  which of the coming calls fail; \<open>msg_log\<close> collects what \<^verbatim>\<open>msg_warn\<close> and \<^verbatim>\<open>msg_info\<close>
  print.
\<close>

record world =
  lock :: "int \<Rightarrow> myflock_op"
  flock_script :: "bool list"
  flock_calls :: "(int \<times> myflock_op) list"
  msg_log :: "(msg_level \<times> msg) list"

text \<open>Modelled from the spec: acquire(fd, mode) with mode shared, exclusive or none/release
  gives success (0) or failure (negative); a failed call changes no lock.\<close>

definition myflock :: "world \<Rightarrow> int \<Rightarrow> myflock_op \<Rightarrow> int \<times> world" where
  "myflock w fd op =
     (let w1 = w\<lparr>flock_calls := flock_calls w @ [(fd, op)]\<rparr> in
      case flock_script w1 of
        [] \<Rightarrow> (0, w1\<lparr>lock := (lock w1)(fd := op)\<rparr>)
      | f # fs \<Rightarrow>
          (if f then (- 1, w1\<lparr>flock_script := fs\<rparr>)
           else (0, w1\<lparr>lock := (lock w1)(fd := op), flock_script := fs\<rparr>)))"

text \<open>Modelled from the spec: \<^verbatim>\<open>msg_warn\<close> and \<^verbatim>\<open>msg_info\<close> (msg.c is not under src/) log a
  non-fatal diagnostic and return.\<close>

definition msg_warn :: "world \<Rightarrow> msg \<Rightarrow> world" where
  "msg_warn w m = w\<lparr>msg_log := msg_log w @ [(WARN, m)]\<rparr>"

definition msg_info :: "world \<Rightarrow> msg \<Rightarrow> world" where
  "msg_info w m = w\<lparr>msg_log := msg_log w @ [(INFO, m)]\<rparr>"

section \<open>The dictionary handle\<close>

text \<open>\<^verbatim>\<open>DICT_LMDB\<close> of the source, with the generic members of \<^verbatim>\<open>DICT\<close> the adapter uses
  (the declaration of \<^verbatim>\<open>DICT\<close> in dict.h is not under src/), and the two fields of
  \<^verbatim>\<open>struct stat\<close> open reads.\<close>

record stat =
  st_mtime :: int
  st_uid :: int

record dict_lmdb =
  dict_type :: string
  dict_name :: string
  flags :: "dict_flag set"
  lock_fd :: int
  stat_fd :: int
  mtime :: int
  owner_uid :: int
  owner_status :: bool
  error :: int
  fold_buf :: "string option"
  jbuf :: bool
  slmdb :: slmdb
  key_buf :: "string option"
  val_buf :: "string option"

text \<open>A \<^verbatim>\<open>const char *\<close> the adapter hands out: null, or the string of one of the handle's
  buffers (\<^verbatim>\<open>vstring_str(buf)\<close>). What it points to is read from the handle.\<close>

datatype char_ptr = NULL | STR_VAL_BUF | STR_KEY_BUF | STR_CALLER string


text \<open>The block "Optionally fold the key" of lookup, update and delete.\<close>

definition fold_key :: "dict_lmdb \<Rightarrow> string \<Rightarrow> dict_lmdb \<times> string" where
  "fold_key dict name =
     (if DICT_FLAG_FOLD_FIX \<in> flags dict
      then (dict\<lparr>fold_buf := Some (lowercase name)\<rparr>, lowercase name)
      else (dict, name))"

text \<open>The condition \<^verbatim>\<open>(dict->flags & DICT_FLAG_LOCK) && myflock(dict->lock_fd, ..., op) < 0\<close>.\<close>

definition flock_fails :: "dict_lmdb \<Rightarrow> world \<Rightarrow> myflock_op \<Rightarrow> bool \<times> world" where
  "flock_fails dict w op =
     (if DICT_FLAG_LOCK \<in> flags dict
      then (let (r, w1) = myflock w (lock_fd dict) op in (r < 0, w1))
      else (False, w))"

text \<open>The key \<^verbatim>\<open>mv_data = name\<close>, \<^verbatim>\<open>mv_size = n\<close> that lookup and delete hand to the engine,
  with \<open>n\<close> the value of the \<^verbatim>\<open>int\<close> expression \<^verbatim>\<open>klen + 1\<close> or \<^verbatim>\<open>klen\<close>: it is a key when the
  \<^verbatim>\<open>int\<close> addition did not overflow and the size, converted to \<^verbatim>\<open>size_t\<close>, stays within the
  string and its terminator. Otherwise the call has no defined behaviour.\<close>

definition mv_size_defined :: "platform \<Rightarrow> string \<Rightarrow> int \<Rightarrow> bool" where
  "mv_size_defined P name n = (n \<le> INT_MAX \<and> size_t_of_int P n \<le> strlen name + 1)"

section \<open>dict\_lmdb\_lookup\<close>

text \<open>One probe of lookup: \<^verbatim>\<open>slmdb_get\<close> with a key of \<open>size\<close> bytes; a hit clears the other
  encoding's flag and copies the value into \<open>val_buf\<close>; a status other than not-found is fatal.\<close>

definition lookup_try :: "dict_lmdb \<Rightarrow> string \<Rightarrow> nat \<Rightarrow> dict_flag \<Rightarrow> msg \<times> dict_lmdb + char_ptr \<times> dict_lmdb" where
  "lookup_try dict name sz other =
     (let (status, mdb_value, s1) = slmdb_get (slmdb dict) (mem name sz);
          dict1 = dict\<lparr>slmdb := s1\<rparr> in
      if status = 0
      then Inr (STR_VAL_BUF,
                dict1\<lparr>flags := flags dict1 - {other}, val_buf := SCOPY (val_buf dict1) mdb_value\<rparr>)
      else if status \<noteq> MDB_NOTFOUND
      then Inl ((''error reading %s:%s: %s'',
                 [S (dict_type dict1), S (dict_name dict1), MDB_STRERROR status]), dict1)
      else Inr (NULL, dict1))"

definition dict_lmdb_lookup :: "platform \<Rightarrow> dict_lmdb \<Rightarrow> world \<Rightarrow> string \<Rightarrow> (char_ptr, dict_lmdb \<times> world) outcome" where
  "dict_lmdb_lookup P dict0 w0 name0 =
     (let dict1 = dict0\<lparr>error := 0\<rparr>;
          klen = int_of_size_t (strlen name0) in
      if DICT_FLAG_TRY1NULL \<notin> flags dict1 \<and> DICT_FLAG_TRY0NULL \<notin> flags dict1
      then Panic (''dict_lmdb_lookup: no DICT_FLAG_TRY1NULL | DICT_FLAG_TRY0NULL flag'', []) (dict1, w0)
      else
        let (dict2, name) = fold_key dict1 name0;
            (failed, w1) = flock_fails dict2 w0 MYFLOCK_OP_SHARED in
        if failed then Fatal (''%s: lock dictionary: %m'', [S (dict_name dict2)]) (dict2, w1)
        else if DICT_FLAG_TRY1NULL \<in> flags dict2 \<and> \<not> mv_size_defined P name (klen + 1)
        then Undefined (dict2, w1)
        else
          case (if DICT_FLAG_TRY1NULL \<in> flags dict2
                then lookup_try dict2 name (size_t_of_int P (klen + 1)) DICT_FLAG_TRY0NULL
                else Inr (NULL, dict2)) of
            Inl (m, dict3) \<Rightarrow> Fatal m (dict3, w1)
          | Inr (result1, dict3) \<Rightarrow>
              if result1 = NULL \<and> DICT_FLAG_TRY0NULL \<in> flags dict3
                   \<and> \<not> mv_size_defined P name klen
              then Undefined (dict3, w1)
              else
                (case (if result1 = NULL \<and> DICT_FLAG_TRY0NULL \<in> flags dict3
                       then lookup_try dict3 name (size_t_of_int P klen) DICT_FLAG_TRY1NULL
                       else Inr (result1, dict3)) of
                   Inl (m, dict4) \<Rightarrow> Fatal m (dict4, w1)
                 | Inr (result, dict4) \<Rightarrow>
                     (let (failed, w2) = flock_fails dict4 w1 MYFLOCK_OP_NONE in
                      if failed
                      then Fatal (''%s: unlock dictionary: %m'', [S (dict_name dict4)]) (dict4, w2)
                      else Return result (dict4, w2))))"

section \<open>dict\_lmdb\_update\<close>

text \<open>The format \<^verbatim>\<open>%s:%s: duplicate entry: \"%s\"\<close> of the warning and of the fatal error
  (\<open>CHR 0x22\<close> is the double quote).\<close>

definition duplicate_entry_fmt :: string where
  "duplicate_entry_fmt = ''%s:%s: duplicate entry: '' @ [CHR 0x22] @ ''%s'' @ [CHR 0x22]"

text \<open>The classification of the status of \<^verbatim>\<open>slmdb_put\<close>: \<open>Inl\<close> is \<^verbatim>\<open>msg_fatal\<close>.\<close>

definition update_status :: "dict_lmdb \<Rightarrow> world \<Rightarrow> string \<Rightarrow> int \<Rightarrow> msg + world" where
  "update_status dict w name status =
     (if status \<noteq> 0
      then (if status = MDB_KEYEXIST
            then (if DICT_FLAG_DUP_IGNORE \<in> flags dict then Inr w
                  else if DICT_FLAG_DUP_WARN \<in> flags dict
                  then Inr (msg_warn w (duplicate_entry_fmt,
                                        [S (dict_type dict), S (dict_name dict), S (c_str name)]))
                  else Inl (duplicate_entry_fmt,
                            [S (dict_type dict), S (dict_name dict), S (c_str name)]))
            else Inl (''error updating %s:%s: %s'',
                      [S (dict_type dict), S (dict_name dict), MDB_STRERROR status]))
      else Inr w)"

definition dict_lmdb_update :: "platform \<Rightarrow> dict_lmdb \<Rightarrow> world \<Rightarrow> string \<Rightarrow> string \<Rightarrow> (int, dict_lmdb \<times> world) outcome" where
  "dict_lmdb_update P dict0 w0 name0 val =
     (let dict1 = dict0\<lparr>error := 0\<rparr> in
      if DICT_FLAG_TRY1NULL \<notin> flags dict1 \<and> DICT_FLAG_TRY0NULL \<notin> flags dict1
      then Panic (''dict_lmdb_update: no DICT_FLAG_TRY1NULL | DICT_FLAG_TRY0NULL flag'', []) (dict1, w0)
      else
        let (dict2, name) = fold_key dict1 name0;
            key_size = strlen name;
            value_size = strlen val;
            dict3 = (if DICT_FLAG_TRY1NULL \<in> flags dict2 \<and> DICT_FLAG_TRY0NULL \<in> flags dict2
                     then (if LMDB_NO_TRAILING_NULL P
                           then dict2\<lparr>flags := flags dict2 - {DICT_FLAG_TRY1NULL}\<rparr>
                           else dict2\<lparr>flags := flags dict2 - {DICT_FLAG_TRY0NULL}\<rparr>)
                     else dict2);
            (key_size, value_size) = (if DICT_FLAG_TRY1NULL \<in> flags dict3
                                      then (key_size + 1, value_size + 1)
                                      else (key_size, value_size));
            (failed, w1) = flock_fails dict3 w0 MYFLOCK_OP_EXCLUSIVE in
        if failed then Fatal (''%s: lock dictionary: %m'', [S (dict_name dict3)]) (dict3, w1)
        else
          let (status, s1) = slmdb_put (slmdb dict3) (mem name key_size) (mem val value_size)
                               (DICT_FLAG_DUP_REPLACE \<notin> flags dict3);
              dict4 = dict3\<lparr>slmdb := s1\<rparr> in
          case update_status dict4 w1 name status of
            Inl m \<Rightarrow> Fatal m (dict4, w1)
          | Inr w2 \<Rightarrow>
              (let (failed, w3) = flock_fails dict4 w2 MYFLOCK_OP_NONE in
               if failed
               then Fatal (''%s: unlock dictionary: %m'', [S (dict_name dict4)]) (dict4, w3)
               else Return status (dict4, w3)))"

section \<open>dict\_lmdb\_delete\<close>

text \<open>One probe of delete: \<^verbatim>\<open>slmdb_del\<close> with a key of \<open>size\<close> bytes; not-found becomes
  status 1, any other failure is fatal, a hit clears the other encoding's flag.\<close>

definition delete_try :: "dict_lmdb \<Rightarrow> string \<Rightarrow> nat \<Rightarrow> dict_flag \<Rightarrow> msg \<times> dict_lmdb + int \<times> dict_lmdb" where
  "delete_try dict name sz other =
     (let (status, s1) = slmdb_del (slmdb dict) (mem name sz);
          dict1 = dict\<lparr>slmdb := s1\<rparr> in
      if status \<noteq> 0
      then (if status = MDB_NOTFOUND then Inr (1, dict1)
            else Inl ((''error deleting from %s:%s: %s'',
                       [S (dict_type dict1), S (dict_name dict1), MDB_STRERROR status]), dict1))
      else Inr (status, dict1\<lparr>flags := flags dict1 - {other}\<rparr>))"

definition dict_lmdb_delete :: "platform \<Rightarrow> dict_lmdb \<Rightarrow> world \<Rightarrow> string \<Rightarrow> (int, dict_lmdb \<times> world) outcome" where
  "dict_lmdb_delete P dict0 w0 name0 =
     (let status0 = 1;
          dict1 = dict0\<lparr>error := 0\<rparr>;
          klen = int_of_size_t (strlen name0) in
      if DICT_FLAG_TRY1NULL \<notin> flags dict1 \<and> DICT_FLAG_TRY0NULL \<notin> flags dict1
      then Panic (''dict_lmdb_delete: no DICT_FLAG_TRY1NULL | DICT_FLAG_TRY0NULL flag'', []) (dict1, w0)
      else
        let (dict2, name) = fold_key dict1 name0;
            (failed, w1) = flock_fails dict2 w0 MYFLOCK_OP_EXCLUSIVE in
        if failed then Fatal (''%s: lock dictionary: %m'', [S (dict_name dict2)]) (dict2, w1)
        else if DICT_FLAG_TRY1NULL \<in> flags dict2 \<and> \<not> mv_size_defined P name (klen + 1)
        then Undefined (dict2, w1)
        else
          case (if DICT_FLAG_TRY1NULL \<in> flags dict2
                then delete_try dict2 name (size_t_of_int P (klen + 1)) DICT_FLAG_TRY0NULL
                else Inr (status0, dict2)) of
            Inl (m, dict3) \<Rightarrow> Fatal m (dict3, w1)
          | Inr (status1, dict3) \<Rightarrow>
              if status1 > 0 \<and> DICT_FLAG_TRY0NULL \<in> flags dict3
                   \<and> \<not> mv_size_defined P name klen
              then Undefined (dict3, w1)
              else
                (case (if status1 > 0 \<and> DICT_FLAG_TRY0NULL \<in> flags dict3
                       then delete_try dict3 name (size_t_of_int P klen) DICT_FLAG_TRY1NULL
                       else Inr (status1, dict3)) of
                   Inl (m, dict4) \<Rightarrow> Fatal m (dict4, w1)
                 | Inr (status, dict4) \<Rightarrow>
                     (let (failed, w2) = flock_fails dict4 w1 MYFLOCK_OP_NONE in
                      if failed
                      then Fatal (''%s: unlock dictionary: %m'', [S (dict_name dict4)]) (dict4, w2)
                      else Return status (dict4, w2))))"

section \<open>dict\_lmdb\_sequence\<close>

text \<open>The caller's \<^verbatim>\<open>*key\<close> and \<^verbatim>\<open>*value\<close> go in and come out: the call assigns them only on
  the paths where the source does.\<close>

definition dict_lmdb_sequence :: "dict_lmdb \<Rightarrow> world \<Rightarrow> int \<Rightarrow> char_ptr \<Rightarrow> char_ptr \<Rightarrow> (int \<times> char_ptr \<times> char_ptr, dict_lmdb \<times> world) outcome" where
  "dict_lmdb_sequence dict0 w0 function key0 value0 =
     (let dict1 = dict0\<lparr>error := 0\<rparr> in
      if function \<noteq> DICT_SEQ_FUN_FIRST \<and> function \<noteq> DICT_SEQ_FUN_NEXT
      then Panic (''%s: invalid function: %d'', [S ''dict_lmdb_sequence'', D function]) (dict1, w0)
      else
        let op = (if function = DICT_SEQ_FUN_FIRST then MDB_FIRST else MDB_NEXT);
            (failed, w1) = flock_fails dict1 w0 MYFLOCK_OP_SHARED in
        if failed then Fatal (''%s: lock dictionary: %m'', [S (dict_name dict1)]) (dict1, w1)
        else
          let (status, mdb_key, mdb_value, s1) = slmdb_cursor_get (slmdb dict1) op;
              dict2 = dict1\<lparr>slmdb := s1\<rparr> in
          if status \<noteq> 0 \<and> status \<noteq> MDB_NOTFOUND
          then Fatal (''error seeking %s:%s: %s'',
                      [S (dict_type dict2), S (dict_name dict2), MDB_STRERROR status]) (dict2, w1)
          else
            let (status, key, val, dict3) =
                  (if status = 0
                   then (let dict2a = dict2\<lparr>key_buf := SCOPY (key_buf dict2) mdb_key\<rparr> in
                         if mdb_value \<noteq> []
                         then (status, STR_KEY_BUF, STR_VAL_BUF,
                               dict2a\<lparr>val_buf := SCOPY (val_buf dict2a) mdb_value\<rparr>)
                         else (status, STR_KEY_BUF, value0, dict2a))
                   else (1, key0, value0, dict2));
                (failed, w2) = flock_fails dict3 w1 MYFLOCK_OP_NONE in
            if failed
            then Fatal (''%s: unlock dictionary: %m'', [S (dict_name dict3)]) (dict3, w2)
            else Return (status, key, val) (dict3, w2))"

section \<open>The operation table of the handle\<close>

text \<open>\<^verbatim>\<open>dict_lmdb_open\<close> installs the four functions as the handle's \<^verbatim>\<open>lookup\<close>, \<^verbatim>\<open>update\<close>,
  \<^verbatim>\<open>delete\<close> and \<^verbatim>\<open>sequence\<close> members; a caller's request goes through that table.\<close>

datatype dict_request =
    LOOKUP string
  | UPDATE string string
  | DELETE string
  | SEQUENCE int char_ptr char_ptr

datatype dict_reply =
    PTR char_ptr
  | STATUS int
  | ENTRY int char_ptr char_ptr

fun reply_of :: "('a \<Rightarrow> 'b) \<Rightarrow> ('a, 's) outcome \<Rightarrow> ('b, 's) outcome" where
  "reply_of f (Return r s) = Return (f r) s"
| "reply_of f (Fatal m s) = Fatal m s"
| "reply_of f (Panic m s) = Panic m s"
| "reply_of f (Undefined s) = Undefined s"

fun dict_lmdb_call :: "platform \<Rightarrow> dict_lmdb \<Rightarrow> world \<Rightarrow> dict_request \<Rightarrow> (dict_reply, dict_lmdb \<times> world) outcome" where
  "dict_lmdb_call P dict w (LOOKUP name) = reply_of PTR (dict_lmdb_lookup P dict w name)"
| "dict_lmdb_call P dict w (UPDATE name val) = reply_of STATUS (dict_lmdb_update P dict w name val)"
| "dict_lmdb_call P dict w (DELETE name) = reply_of STATUS (dict_lmdb_delete P dict w name)"
| "dict_lmdb_call P dict w (SEQUENCE function key val) =
     reply_of (\<lambda>(status, k, v). ENTRY status k v) (dict_lmdb_sequence dict w function key val)"

text \<open>A caller's run of requests on one handle; it ends where the process terminates or a
  call has no defined behaviour.\<close>

fun dict_lmdb_calls :: "platform \<Rightarrow> dict_lmdb \<Rightarrow> world \<Rightarrow> dict_request list \<Rightarrow> (dict_reply list, dict_lmdb \<times> world) outcome" where
  "dict_lmdb_calls P dict w [] = Return [] (dict, w)"
| "dict_lmdb_calls P dict w (req # reqs) =
     (case dict_lmdb_call P dict w req of
        Return r (dict1, w1) \<Rightarrow> reply_of (\<lambda>rs. r # rs) (dict_lmdb_calls P dict1 w1 reqs)
      | Fatal m s \<Rightarrow> Fatal m s
      | Panic m s \<Rightarrow> Panic m s
      | Undefined s \<Rightarrow> Undefined s)"

section \<open>dict\_lmdb\_notify\<close>

text \<open>Modelled from the spec: the status codes of lmdb.h (not under src/) for map-full,
  reader-slots-exhausted and map-resized.\<close>

definition MDB_MAP_FULL :: int where
  "MDB_MAP_FULL = - 30792"

definition MDB_READERS_FULL :: int where
  "MDB_READERS_FULL = - 30790"

definition MDB_MAP_RESIZED :: int where
  "MDB_MAP_RESIZED = - 30785"

definition dict_lmdb_notify :: "dict_lmdb \<Rightarrow> world \<Rightarrow> int \<Rightarrow> nat \<Rightarrow> world" where
  "dict_lmdb_notify dict w error_code arg =
     (if error_code = MDB_SUCCESS
      then msg_info w (''database %s:%s: using size limit %lu during open'',
                       [S (dict_type dict), S (dict_name dict), D (int arg)])
      else if error_code = MDB_MAP_FULL
      then msg_info w (''database %s:%s: using size limit %lu after MDB_MAP_FULL'',
                       [S (dict_type dict), S (dict_name dict), D (int arg)])
      else if error_code = MDB_MAP_RESIZED
      then msg_info w (''database %s:%s: using size limit %lu after MDB_MAP_RESIZED'',
                       [S (dict_type dict), S (dict_name dict), D (int arg)])
      else if error_code = MDB_READERS_FULL
      then msg_info w (''database %s:%s: pausing after MDB_READERS_FULL'',
                       [S (dict_type dict), S (dict_name dict)])
      else msg_warn w (''unknown MDB error code: %d'', [D error_code]))"

section \<open>The degraded stand-in handle\<close>

text \<open>
  Modelled from the spec: \<^verbatim>\<open>dict_surrogate\<close> (dict_surrogate.c is not under src/) builds the
  stand-in handle that open returns when the engine cannot be opened. It captures the
  diagnostic, and every operation on it fails with that diagnostic instead of aborting:
  the operation logs a warning that carries it, sets the handle's error indicator and
  returns a failure (a null pointer from lookup, an error status from the others).
\<close>

record dict_surrogate_t =
  sur_type :: string
  sur_name :: string
  sur_open_flags :: int
  sur_flags :: "dict_flag set"
  sur_context :: msg
  sur_error :: int

text \<open>Modelled from the spec: the error indicator and the error status of dict.h (not under
  src/) that a failed operation leaves and returns.\<close>

definition DICT_ERR_RETRY :: int where
  "DICT_ERR_RETRY = - 1"

definition DICT_STAT_ERROR :: int where
  "DICT_STAT_ERROR = - 1"

text \<open>Modelled from the spec: \<^verbatim>\<open>dict_surrogate(type, name, open_flags, dict_flags, fmt, ...)\<close>
  (dict_surrogate.c is not under src/) captures the formatted diagnostic in the stand-in.\<close>

definition dict_surrogate :: "string \<Rightarrow> string \<Rightarrow> int \<Rightarrow> dict_flag set \<Rightarrow> msg \<Rightarrow> dict_surrogate_t" where
  "dict_surrogate dtype dname open_flags dict_flags context =
     \<lparr>sur_type = dtype, sur_name = dname, sur_open_flags = open_flags, sur_flags = dict_flags,
      sur_context = context, sur_error = 0\<rparr>"

text \<open>Modelled from the spec: the warning of an operation on the stand-in carries the
  captured diagnostic; every operation on the stand-in logs it, sets the error indicator
  and returns a failure.\<close>

definition surrogate_warning :: "dict_surrogate_t \<Rightarrow> msg" where
  "surrogate_warning sur =
     (''%s:%s is unavailable. '' @ fst (sur_context sur),
      [S (sur_type sur), S (sur_name sur)] @ snd (sur_context sur))"

fun surrogate_reply :: "dict_request \<Rightarrow> dict_reply" where
  "surrogate_reply (LOOKUP name) = PTR NULL"
| "surrogate_reply (UPDATE name val) = STATUS DICT_STAT_ERROR"
| "surrogate_reply (DELETE name) = STATUS DICT_STAT_ERROR"
| "surrogate_reply (SEQUENCE function key val) = ENTRY DICT_STAT_ERROR key val"

definition dict_surrogate_call :: "dict_surrogate_t \<Rightarrow> world \<Rightarrow> dict_request \<Rightarrow> (dict_reply, dict_surrogate_t \<times> world) outcome" where
  "dict_surrogate_call sur w req =
     Return (surrogate_reply req)
            (sur\<lparr>sur_error := DICT_ERR_RETRY\<rparr>, msg_warn w (surrogate_warning sur))"

fun failure_reply :: "dict_reply \<Rightarrow> bool" where
  "failure_reply (PTR p) = (p = NULL)"
| "failure_reply (STATUS st) = (st < 0)"
| "failure_reply (ENTRY st k v) = (st < 0)"

section \<open>dict\_lmdb\_open\<close>

text \<open>
  Modelled from the spec: what open finds outside the adapter (slmdb.c, the file system and
  the clock are not under src/). \<open>stack_slmdb\<close> is the \<^verbatim>\<open>SLMDB\<close> variable of open before
  \<^verbatim>\<open>slmdb_init\<close> fills it; initialize-session(initial size, growth increment, max size) and
  open(path, open-mode flags, feature flags) give a status each; \<open>file_entries\<close> and
  \<open>file_fd\<close> are the entries of the database file and the descriptor the engine opens;
  \<open>fstat_result\<close> and \<open>stat_result\<close> are \<open>None\<close> where the system call fails.
\<close>

record open_env =
  dict_lmdb_map_size :: nat
  msg_verbose :: bool
  stack_slmdb :: slmdb
  slmdb_init_status :: int
  slmdb_open_status :: "string \<Rightarrow> int \<Rightarrow> mdb_flag set \<Rightarrow> slmdb_flag set \<Rightarrow> int"
  file_entries :: "string \<Rightarrow> (bytes \<times> bytes) list"
  file_fd :: "string \<Rightarrow> int"
  fstat_result :: "int \<Rightarrow> stat option"
  stat_result :: "string \<Rightarrow> stat option"
  time_now :: int

text \<open>Modelled from the spec: initialize-session(initial size, growth increment, max size)
  stores the map-size policy in the session and gives a status.\<close>

definition slmdb_init :: "open_env \<Rightarrow> nat \<Rightarrow> int \<Rightarrow> int \<Rightarrow> int \<times> slmdb" where
  "slmdb_init env limit0 incr limit1 =
     (slmdb_init_status env,
      (stack_slmdb env)\<lparr>curr_limit := limit0, size_incr := incr, hard_limit := limit1\<rparr>)"

text \<open>Modelled from the spec: open(path, open-mode flags, feature flags) gives a status; on
  success the session holds the entries of the file, its descriptor and the flags.\<close>

definition slmdb_open :: "open_env \<Rightarrow> slmdb \<Rightarrow> string \<Rightarrow> int \<Rightarrow> mdb_flag set \<Rightarrow> slmdb_flag set \<Rightarrow> int \<times> slmdb" where
  "slmdb_open env s path open_flags lmdb_flags sflags =
     (let status = slmdb_open_status env path open_flags lmdb_flags sflags in
      if status \<noteq> 0 then (status, s)
      else (0, s\<lparr>db := file_entries env path, cursor := None, slmdb_lmdb_flags := lmdb_flags,
                 slmdb_flags := sflags, db_fd := file_fd env path\<rparr>))"

text \<open>Modelled from the spec: fd() gives the underlying file descriptor, and
  \<^verbatim>\<open>slmdb_curr_limit\<close> the current map-size limit of the session.\<close>

definition slmdb_fd :: "slmdb \<Rightarrow> int" where
  "slmdb_fd s = db_fd s"

definition slmdb_curr_limit :: "slmdb \<Rightarrow> nat" where
  "slmdb_curr_limit s = curr_limit s"

text \<open>Modelled from the spec: set-control(retry limits, non-local error-jump target,
  notification callback, opaque context) stores each request of the list in the session.\<close>

datatype slmdb_ctl =
    SLMDB_CTL_API_RETRY_LIMIT int
  | SLMDB_CTL_BULK_RETRY_LIMIT int
  | SLMDB_CTL_LONGJMP_FN
  | SLMDB_CTL_NOTIFY_FN
  | SLMDB_CTL_CONTEXT

fun slmdb_control :: "slmdb \<Rightarrow> slmdb_ctl list \<Rightarrow> slmdb" where
  "slmdb_control s [] = s"
| "slmdb_control s (SLMDB_CTL_API_RETRY_LIMIT n # reqs) = slmdb_control (s\<lparr>api_retry_limit := n\<rparr>) reqs"
| "slmdb_control s (SLMDB_CTL_BULK_RETRY_LIMIT n # reqs) = slmdb_control (s\<lparr>bulk_retry_limit := n\<rparr>) reqs"
| "slmdb_control s (SLMDB_CTL_LONGJMP_FN # reqs) = slmdb_control (s\<lparr>longjmp_fn := True\<rparr>) reqs"
| "slmdb_control s (SLMDB_CTL_NOTIFY_FN # reqs) = slmdb_control (s\<lparr>notify_fn := True\<rparr>) reqs"
| "slmdb_control s (SLMDB_CTL_CONTEXT # reqs) = slmdb_control (s\<lparr>cb_context := True\<rparr>) reqs"

text \<open>Modelled from the spec: the handle open returns is a usable dictionary handle or the
  degraded stand-in; the macro \<^verbatim>\<open>DICT_DEBUG\<close> of dict.h (not under src/) puts a logging proxy
  around a handle opened with \<^verbatim>\<open>DICT_FLAG_DEBUG\<close>, kept here as a constructor.\<close>

datatype DICT =
    DICT_LMDB dict_lmdb
  | DICT_DEBUG_PROXY dict_lmdb
  | DICT_SURROGATE dict_surrogate_t

definition DICT_DEBUG :: "dict_lmdb \<Rightarrow> DICT" where
  "DICT_DEBUG dict = (if DICT_FLAG_DEBUG \<in> flags dict then DICT_DEBUG_PROXY dict else DICT_LMDB dict)"

fun handle_flags :: "DICT \<Rightarrow> dict_flag set" where
  "handle_flags (DICT_LMDB dict) = flags dict"
| "handle_flags (DICT_DEBUG_PROXY dict) = flags dict"
| "handle_flags (DICT_SURROGATE sur) = sur_flags sur"

text \<open>The first steps of open: the physical file name, the "impedance adapters" that
  translate the open flags and the dictionary flags, the write-map mode of a world-readable
  database, then \<^verbatim>\<open>slmdb_init\<close> and, when it succeeds, \<^verbatim>\<open>slmdb_open\<close>. The result is the
  status open tests and the session.\<close>

definition engine_open :: "platform \<Rightarrow> open_env \<Rightarrow> string \<Rightarrow> int \<Rightarrow> dict_flag set \<Rightarrow> int \<times> slmdb" where
  "engine_open P env path open_flags dict_flags =
     (let mdb_path = path @ ''.'' @ DICT_TYPE_LMDB;
          mdb_flags0 = {MDB_NOSUBDIR, MDB_NOLOCK}
                         \<union> (if open_flags = O_RDONLY then {MDB_RDONLY} else {});
          slmdb_flags0 = (if DICT_FLAG_BULK_UPDATE \<in> dict_flags then {SLMDB_FLAG_BULK} else {});
          mdb_flags = mdb_flags0 \<union> (if DICT_FLAG_WORLD_READ \<in> dict_flags then {MDB_WRITEMAP} else {});
          (status1, slmdb1) = slmdb_init env (dict_lmdb_map_size env) DICT_LMDB_SIZE_INCR
                                (DICT_LMDB_SIZE_MAX P)
      in if status1 \<noteq> 0 then (status1, slmdb1)
         else slmdb_open env slmdb1 mdb_path open_flags mdb_flags slmdb_flags0)"

text \<open>The last steps of open, once the engine is open and \<^verbatim>\<open>fstat\<close> has succeeded: the
  bundling of the handle, the staleness warning, the encoding-try flags, the controls.\<close>

definition dict_lmdb_bundle :: "platform \<Rightarrow> open_env \<Rightarrow> world \<Rightarrow> string \<Rightarrow> string \<Rightarrow> dict_flag set \<Rightarrow> slmdb \<Rightarrow> stat \<Rightarrow> dict_lmdb \<times> world" where
  "dict_lmdb_bundle P env w path mdb_path dict_flags slmdb0 st =
     (let fd = slmdb_fd slmdb0;
          w1 = (if DICT_FLAG_LOCK \<in> dict_flags
                   \<and> (case stat_result env path of
                         None \<Rightarrow> False
                       | Some st2 \<Rightarrow> st_mtime st2 > st_mtime st \<and> st_mtime st2 < time_now env - 100)
                then msg_warn w (''database %s is older than source file %s'', [S mdb_path, S path])
                else w);
          flags1 = dict_flags \<union> {DICT_FLAG_FIXED};
          flags2 = (if DICT_FLAG_TRY0NULL \<notin> dict_flags \<and> DICT_FLAG_TRY1NULL \<notin> dict_flags
                    then flags1 \<union> {DICT_FLAG_TRY0NULL, DICT_FLAG_TRY1NULL}
                    else flags1);
          slmdb1 = slmdb_control slmdb0
                     [SLMDB_CTL_API_RETRY_LIMIT DICT_LMDB_API_RETRY_LIMIT,
                      SLMDB_CTL_BULK_RETRY_LIMIT (DICT_LMDB_BULK_RETRY_LIMIT P),
                      SLMDB_CTL_LONGJMP_FN,
                      SLMDB_CTL_CONTEXT];
          slmdb2 = (if msg_verbose env then slmdb_control slmdb1 [SLMDB_CTL_NOTIFY_FN] else slmdb1);
          dict = \<lparr>dict_type = DICT_TYPE_LMDB, dict_name = path, flags = flags2,
                  lock_fd = fd, stat_fd = fd, mtime = st_mtime st,
                  owner_uid = st_uid st, owner_status = (st_uid st \<noteq> 0), error = 0,
                  fold_buf = (if DICT_FLAG_FOLD_FIX \<in> dict_flags then Some [] else None),
                  jbuf = (DICT_FLAG_BULK_UPDATE \<in> dict_flags),
                  slmdb = slmdb2, key_buf = None, val_buf = None\<rparr>;
          w2 = (if msg_verbose env
                then dict_lmdb_notify dict w1 MDB_SUCCESS (slmdb_curr_limit slmdb2)
                else w1)
      in (dict, w2))"

definition dict_lmdb_open :: "platform \<Rightarrow> open_env \<Rightarrow> world \<Rightarrow> string \<Rightarrow> int \<Rightarrow> dict_flag set \<Rightarrow> (DICT, world) outcome" where
  "dict_lmdb_open P env w path open_flags dict_flags =
     (let mdb_path = path @ ''.'' @ DICT_TYPE_LMDB;
          (status, slmdb0) = engine_open P env path open_flags dict_flags
      in
      if status \<noteq> 0
      then Return (DICT_SURROGATE (dict_surrogate DICT_TYPE_LMDB path open_flags dict_flags
                     (''open database %s: %s'', [S mdb_path, MDB_STRERROR status]))) w
      else
        let fd = slmdb_fd slmdb0;
            (r1, w1) = (if DICT_FLAG_BULK_UPDATE \<in> dict_flags
                        then myflock w fd MYFLOCK_OP_EXCLUSIVE else (0, w)) in
        if r1 < 0 then Fatal (''%s: lock dictionary: %m'', [S mdb_path]) w1
        else
          let (r2, w2) = (if DICT_FLAG_BULK_UPDATE \<in> dict_flags
                          then myflock w1 fd MYFLOCK_OP_SHARED else (0, w1)) in
          if r2 < 0 then Fatal (''%s: unlock dictionary: %m'', [S mdb_path]) w2
          else
            case fstat_result env fd of
              None \<Rightarrow> Fatal (''dict_lmdb_open: fstat: %m'', []) w2
            | Some st \<Rightarrow>
                (let (dict, w3) = dict_lmdb_bundle P env w2 path mdb_path dict_flags slmdb0 st
                 in Return (DICT_DEBUG dict) w3))"

section \<open>Notions the properties are stated with\<close>

text \<open>The physical key of a logical key under one of the two encodings, as the handle
  shapes it: folded when the handle folds keys, with the trailing sentinel byte under
  \<open>DICT_FLAG_TRY1NULL\<close> and verbatim under \<open>DICT_FLAG_TRY0NULL\<close>.\<close>

definition wire_key :: "dict_lmdb \<Rightarrow> string \<Rightarrow> dict_flag \<Rightarrow> bytes" where
  "wire_key dict name e =
     (let n = (if DICT_FLAG_FOLD_FIX \<in> flags dict then lowercase name else c_str name)
      in if e = DICT_FLAG_TRY1NULL then n @ [NUL] else n)"

definition wire_value :: "string \<Rightarrow> dict_flag \<Rightarrow> bytes" where
  "wire_value val e = (if e = DICT_FLAG_TRY1NULL then c_str val @ [NUL] else c_str val)"

text \<open>The key that lookup and delete hand to the engine in their probe of the encoding \<open>e\<close>:
  \<^verbatim>\<open>mv_data\<close> is the name, folded when the handle folds keys, and \<^verbatim>\<open>mv_size\<close> is
  \<^verbatim>\<open>klen + 1\<close> under \<open>DICT_FLAG_TRY1NULL\<close> and \<^verbatim>\<open>klen\<close> under \<open>DICT_FLAG_TRY0NULL\<close>, with
  \<^verbatim>\<open>int klen = strlen(name)\<close>.\<close>

definition probe_key :: "platform \<Rightarrow> dict_lmdb \<Rightarrow> string \<Rightarrow> dict_flag \<Rightarrow> bytes" where
  "probe_key P dict name e =
     mem (snd (fold_key dict name))
       (size_t_of_int P (if e = DICT_FLAG_TRY1NULL then int_of_size_t (strlen name) + 1
                         else int_of_size_t (strlen name)))"

text \<open>The handle's encoding is resolved to \<open>e\<close>: of the two encoding-try flags, \<open>e\<close> alone is set.\<close>

definition resolved :: "dict_flag \<Rightarrow> dict_lmdb \<Rightarrow> bool" where
  "resolved e dict =
     ((e = DICT_FLAG_TRY0NULL \<and> DICT_FLAG_TRY0NULL \<in> flags dict \<and> DICT_FLAG_TRY1NULL \<notin> flags dict)
      \<or> (e = DICT_FLAG_TRY1NULL \<and> DICT_FLAG_TRY1NULL \<in> flags dict \<and> DICT_FLAG_TRY0NULL \<notin> flags dict))"

text \<open>The key is within the range of the \<^verbatim>\<open>int klen\<close> of lookup and delete: its length and
  its length plus one (the sentinel) are values of the 32-bit \<^verbatim>\<open>int\<close>, that is, the key has
  fewer than \<open>2\<^sup>3\<^sup>1 - 1\<close> bytes, on a platform whose \<^verbatim>\<open>size_t\<close> is at least as wide as \<^verbatim>\<open>int\<close>.\<close>

definition key_in_int_range :: "platform \<Rightarrow> string \<Rightarrow> bool" where
  "key_in_int_range P name =
     (strlen name < 2 ^ 31 - 1 \<and> 32 \<le> sizeof_size_t P * CHAR_BIT P)"


text \<open>The encoding an update writes with: the resolved one, or the platform default when
  both flags are still set.\<close>

definition write_encoding :: "platform \<Rightarrow> dict_lmdb \<Rightarrow> dict_flag" where
  "write_encoding P dict =
     (if DICT_FLAG_TRY1NULL \<in> flags dict \<and> DICT_FLAG_TRY0NULL \<in> flags dict
      then (if LMDB_NO_TRAILING_NULL P then DICT_FLAG_TRY0NULL else DICT_FLAG_TRY1NULL)
      else if DICT_FLAG_TRY1NULL \<in> flags dict then DICT_FLAG_TRY1NULL else DICT_FLAG_TRY0NULL)"



fun result_of :: "('a, 's) outcome \<Rightarrow> 'a option" where
  "result_of (Return r s) = Some r"
| "result_of (Fatal m s) = None"
| "result_of (Panic m s) = None"
| "result_of (Undefined s) = None"

text \<open>The platform's default encoding: no trailing sentinel where \<^verbatim>\<open>LMDB_NO_TRAILING_NULL\<close> is
  defined, the trailing sentinel elsewhere.\<close>

definition platform_default :: "platform \<Rightarrow> dict_flag" where
  "platform_default P = (if LMDB_NO_TRAILING_NULL P then DICT_FLAG_TRY0NULL else DICT_FLAG_TRY1NULL)"

text \<open>The \<^verbatim>\<open>DICT_LMDB\<close> behind a handle that is not the stand-in.\<close>

fun handle_dict :: "DICT \<Rightarrow> dict_lmdb option" where
  "handle_dict (DICT_LMDB dict) = Some dict"
| "handle_dict (DICT_DEBUG_PROXY dict) = Some dict"
| "handle_dict (DICT_SURROGATE sur) = None"

definition opened_dict :: "(DICT, world) outcome \<Rightarrow> dict_lmdb option" where
  "opened_dict out = (case result_of out of None \<Rightarrow> None | Some h \<Rightarrow> handle_dict h)"

section \<open>Example states\<close>

definition ex_world :: world where
  "ex_world = \<lparr>lock = (\<lambda>fd. MYFLOCK_OP_NONE), flock_script = [], flock_calls = [], msg_log = []\<rparr>"

definition ex_slmdb :: "(bytes \<times> bytes) list \<Rightarrow> slmdb" where
  "ex_slmdb entries =
     \<lparr>db = entries, cursor = None, script = [], calls = [], curr_limit = 8192, size_incr = 2,
      hard_limit = 9223372036854775807, slmdb_lmdb_flags = {MDB_NOSUBDIR, MDB_NOLOCK},
      slmdb_flags = {}, db_fd = 3, api_retry_limit = 2, bulk_retry_limit = 128,
      longjmp_fn = True, notify_fn = False, cb_context = True\<rparr>"

definition ex_dict :: "dict_flag set \<Rightarrow> (bytes \<times> bytes) list \<Rightarrow> dict_lmdb" where
  "ex_dict fl entries =
     \<lparr>dict_type = ''lmdb'', dict_name = ''/etc/aliases'', flags = fl, lock_fd = 3, stat_fd = 3,
      mtime = 0, owner_uid = 0, owner_status = False, error = 0, fold_buf = None, jbuf = False,
      slmdb = ex_slmdb entries, key_buf = None, val_buf = None\<rparr>"

text \<open>The same handle on an engine whose next call fails with the status 5 (an I/O error).\<close>

definition ex_dict_faulty :: "dict_flag set \<Rightarrow> (bytes \<times> bytes) list \<Rightarrow> dict_lmdb" where
  "ex_dict_faulty fl entries = (ex_dict fl entries)\<lparr>slmdb := (ex_slmdb entries)\<lparr>script := [5]\<rparr>\<rparr>"

definition ex_platform :: platform where
  "ex_platform = \<lparr>LMDB_NO_TRAILING_NULL = False, sizeof_size_t = 8, CHAR_BIT = 8\<rparr>"

definition ex_env :: "int \<Rightarrow> open_env" where
  "ex_env status =
     \<lparr>dict_lmdb_map_size = 8192, msg_verbose = False, stack_slmdb = ex_slmdb [],
      slmdb_init_status = 0, slmdb_open_status = (\<lambda>path open_flags lf sf. status),
      file_entries = (\<lambda>path. []), file_fd = (\<lambda>path. 3),
      fstat_result = (\<lambda>fd. Some \<lparr>st_mtime = 0, st_uid = 0\<rparr>),
      stat_result = (\<lambda>path. None), time_now = 1000\<rparr>"

definition ex_entries :: "(bytes \<times> bytes) list" where
  "ex_entries = [(''alice'' @ [NUL], ''1'' @ [NUL])]"

text \<open>A key of \<open>2\<^sup>3\<^sup>2 + 5\<close> bytes, beyond the range of \<^verbatim>\<open>int\<close>: its length converts to the
  \<^verbatim>\<open>int\<close> 5.\<close>

definition ex_long_name :: string where
  "ex_long_name = replicate 4294967301 (CHR ''a'')"

text \<open>The handle and the world after a run of requests on an example handle.\<close>

definition ex_run :: "dict_flag set \<Rightarrow> (bytes \<times> bytes) list \<Rightarrow> dict_request list \<Rightarrow> dict_lmdb \<times> world" where
  "ex_run fl entries reqs =
     final_state (dict_lmdb_calls ex_platform (ex_dict fl entries) ex_world reqs)"

section \<open>C strings\<close>

lemma TOLOWER_eq_NUL: "TOLOWER c = NUL \<longleftrightarrow> c = NUL"
proof -
  have "char_of (of_char c + 32 :: nat) \<noteq> NUL"
    if "65 \<le> (of_char c :: nat)" "(of_char c :: nat) \<le> 90"
  proof
    assume "char_of (of_char c + 32 :: nat) = NUL"
    then have "of_char (char_of (of_char c + 32 :: nat)) = (of_char NUL :: nat)" by simp
    then have "(of_char c + 32 :: nat) mod 256 = 0" by (simp add: NUL_def)
    with that show False by simp
  qed
  moreover have "\<not> (65 \<le> (of_char NUL :: nat))" by (simp add: NUL_def)
  ultimately show ?thesis by (auto simp: TOLOWER_def Let_def)
qed

lemma c_str_no_NUL: "NUL \<notin> set (c_str s)"
  by (auto simp: c_str_def dest: set_takeWhileD)

lemma c_str_id: "NUL \<notin> set s \<Longrightarrow> c_str s = s"
  unfolding c_str_def by (rule takeWhile_eq_all_conv [THEN iffD2]) auto

lemma c_str_c_str: "c_str (c_str s) = c_str s"
  by (simp add: c_str_id c_str_no_NUL)

lemma lowercase_no_NUL: "NUL \<notin> set (lowercase s)"
proof
  assume "NUL \<in> set (lowercase s)"
  then obtain x where "x \<in> set (c_str s)" "TOLOWER x = NUL"
    by (auto simp: lowercase_def)
  then show False using c_str_no_NUL [of s] by (simp add: TOLOWER_eq_NUL)
qed

lemma c_str_lowercase: "c_str (lowercase s) = lowercase s"
  by (simp add: c_str_id lowercase_no_NUL)

lemma strlen_lowercase: "strlen (lowercase s) = strlen s"
  by (simp add: strlen_def c_str_lowercase) (simp add: lowercase_def)

lemma mem_strlen: "mem s (strlen s) = c_str s"
  by (simp add: mem_def strlen_def)

lemma mem_Suc_strlen: "mem s (Suc (strlen s)) = c_str s @ [NUL]"
  by (simp add: mem_def strlen_def)

lemma mem_lowercase: "mem (lowercase s) (strlen s) = lowercase s"
  using mem_strlen [of "lowercase s"] by (simp add: strlen_lowercase c_str_lowercase)

lemma mem_Suc_lowercase: "mem (lowercase s) (Suc (strlen s)) = lowercase s @ [NUL]"
  using mem_Suc_strlen [of "lowercase s"] by (simp add: strlen_lowercase c_str_lowercase)




section \<open>The size of a key\<close>





section \<open>The engine binding and the lock, step by step\<close>

lemmas key_shapes = wire_key_def mem_strlen mem_Suc_strlen mem_lowercase mem_Suc_lowercase
  c_str_lowercase strlen_lowercase

lemma MDB_codes: "MDB_NOTFOUND \<noteq> 0" "MDB_KEYEXIST \<noteq> 0" "MDB_KEYEXIST \<noteq> MDB_NOTFOUND"
  by (simp_all add: MDB_NOTFOUND_def MDB_KEYEXIST_def)

lemma engine_call_frame:
  "calls (snd (engine_call s c)) = calls s @ [c]"
  "db (snd (engine_call s c)) = db s"
  "cursor (snd (engine_call s c)) = cursor s"
  by (simp_all add: engine_call_def Let_def split: list.split)






text \<open>With no environment failure pending, the primitives are functions of the database.\<close>

lemma engine_call_healthy:
  "script s = [] \<Longrightarrow> engine_call s c = (0, s\<lparr>calls := calls s @ [c]\<rparr>)"
  by (simp add: engine_call_def)


lemma slmdb_put_healthy:
  "script s = [] \<Longrightarrow> slmdb_put s k v f =
     (if f \<and> map_of (db s) k \<noteq> None
      then (MDB_KEYEXIST, s\<lparr>calls := calls s @ [SLMDB_PUT k v f]\<rparr>)
      else (0, s\<lparr>calls := calls s @ [SLMDB_PUT k v f], db := store_put k v (db s)\<rparr>))"
  by (auto simp: slmdb_put_def engine_call_healthy)



lemma map_of_store_put: "map_of (store_put k v es) k' = (if k' = k then Some v else map_of es k')"
  by (induction es) auto



lemma slmdb_put_ok:
  "script s = [] \<Longrightarrow> script (snd (slmdb_put s k v f)) = []"
  "script s = [] \<Longrightarrow>
     fst (slmdb_put s k v f) = (if f \<and> map_of (db s) k \<noteq> None then MDB_KEYEXIST else 0)"
  "script s = [] \<Longrightarrow>
     db (snd (slmdb_put s k v f)) =
       (if f \<and> map_of (db s) k \<noteq> None then db s else store_put k v (db s))"
  by (auto simp: slmdb_put_healthy)

lemma slmdb_cursor_get_cases:
  "fst (slmdb_cursor_get s op) = 0 \<Longrightarrow>
     (\<exists>i. i < length (db s) \<and> cursor (snd (snd (snd (slmdb_cursor_get s op)))) = Some i
          \<and> fst (snd (slmdb_cursor_get s op)) = fst (db s ! i)
          \<and> fst (snd (snd (slmdb_cursor_get s op))) = snd (db s ! i))"
  by (auto simp: slmdb_cursor_get_def Let_def case_prod_beta engine_call_frame MDB_codes
      split: if_splits)

lemma flock_fails_proj:
  "flock_calls (snd (flock_fails dict w op)) =
     (if DICT_FLAG_LOCK \<in> flags dict then flock_calls w @ [(lock_fd dict, op)]
      else flock_calls w)"
  "msg_log (snd (flock_fails dict w op)) = msg_log w"
  by (simp_all add: flock_fails_def myflock_def Let_def case_prod_beta split: list.split)

lemma flock_fails_lock:
  "\<not> fst (flock_fails dict w op) \<Longrightarrow> DICT_FLAG_LOCK \<in> flags dict \<Longrightarrow>
     lock (snd (flock_fails dict w op)) = (lock w)(lock_fd dict := op)"
  by (simp add: flock_fails_def myflock_def Let_def case_prod_beta split: list.splits if_splits)

lemma flock_fails_ok:
  "flock_script w = [] \<Longrightarrow> \<not> fst (flock_fails dict w op)"
  "flock_script w = [] \<Longrightarrow> flock_script (snd (flock_fails dict w op)) = []"
  by (simp_all add: flock_fails_def myflock_def Let_def case_prod_beta)

lemma update_status_world:
  "update_status d w n st = Inr w2 \<Longrightarrow>
     flock_script w2 = flock_script w \<and> lock w2 = lock w \<and> flock_calls w2 = flock_calls w"
  by (auto simp: update_status_def msg_warn_def split: if_splits)

lemma fold_key_proj:
  "flags (fst (fold_key d n)) = flags d"
  "key_buf (fst (fold_key d n)) = key_buf d"
  "val_buf (fst (fold_key d n)) = val_buf d"
  "slmdb (fst (fold_key d n)) = slmdb d"
  "snd (fold_key d n) = (if DICT_FLAG_FOLD_FIX \<in> flags d then lowercase n else n)"
  by (simp_all add: fold_key_def)



lemmas ex_defs = ex_dict_def ex_slmdb_def ex_world_def ex_platform_def ex_env_def
  ex_entries_def ex_run_def ex_dict_faulty_def ex_long_name_def

lemmas run_defs = dict_lmdb_lookup_def dict_lmdb_update_def dict_lmdb_delete_def
  dict_lmdb_sequence_def lookup_try_def delete_try_def update_status_def fold_key_def
  flock_fails_def myflock_def msg_warn_def msg_info_def engine_call_def slmdb_get_def
  slmdb_put_def slmdb_del_def slmdb_cursor_get_def mem_def strlen_def c_str_def NUL_def
  Let_def SCOPY_def vstring_strncpy_def lowercase_def TOLOWER_def wire_key_def wire_value_def
  write_encoding_def resolved_def platform_default_def
  MDB_NOTFOUND_def MDB_KEYEXIST_def MDB_SUCCESS_def DICT_SEQ_FUN_FIRST_def
  DICT_SEQ_FUN_NEXT_def int_of_size_t_def size_t_of_int_def mv_size_defined_def INT_MAX_def
  key_in_int_range_def probe_key_def

section \<open>A resolved encoding stays resolved\<close>


lemma probe_key_error [simp]: "probe_key P (dict\<lparr>error := n\<rparr>) name e = probe_key P dict name e"
  by (simp add: probe_key_def fold_key_def)










section \<open>Deleting a key that is not there\<close>




section \<open>Programming errors\<close>

text \<open>
  C7. A call of lookup, update or delete on a handle with neither encoding-try flag set, and
  a call of sequence with a mode other than FIRST and NEXT, is a programming-error panic:
  the process terminates with the diagnostic before any lock is taken or the engine is
  called, and the call is neither a return to the caller nor a fatal runtime error.
\<close>

theorem misconfiguration_panics:
  "(DICT_FLAG_TRY1NULL \<notin> flags dict \<and> DICT_FLAG_TRY0NULL \<notin> flags dict \<longrightarrow>
      dict_lmdb_lookup P dict w name =
        Panic (''dict_lmdb_lookup: no DICT_FLAG_TRY1NULL | DICT_FLAG_TRY0NULL flag'', [])
              (dict\<lparr>error := 0\<rparr>, w)
    \<and> dict_lmdb_update P dict w name val =
        Panic (''dict_lmdb_update: no DICT_FLAG_TRY1NULL | DICT_FLAG_TRY0NULL flag'', [])
              (dict\<lparr>error := 0\<rparr>, w)
    \<and> dict_lmdb_delete P dict w name =
        Panic (''dict_lmdb_delete: no DICT_FLAG_TRY1NULL | DICT_FLAG_TRY0NULL flag'', [])
              (dict\<lparr>error := 0\<rparr>, w))
   \<and> (function \<noteq> DICT_SEQ_FUN_FIRST \<and> function \<noteq> DICT_SEQ_FUN_NEXT \<longrightarrow>
      dict_lmdb_sequence dict w function key0 value0 =
        Panic (''%s: invalid function: %d'', [S ''dict_lmdb_sequence'', D function])
              (dict\<lparr>error := 0\<rparr>, w))"
  by (simp add: dict_lmdb_lookup_def dict_lmdb_update_def dict_lmdb_delete_def
      dict_lmdb_sequence_def)

theorem misconfiguration_panics_witness:
  "dict_lmdb_lookup ex_platform (ex_dict {DICT_FLAG_LOCK} []) ex_world ''alice'' =
     Panic (''dict_lmdb_lookup: no DICT_FLAG_TRY1NULL | DICT_FLAG_TRY0NULL flag'', [])
           ((ex_dict {DICT_FLAG_LOCK} [])\<lparr>error := 0\<rparr>, ex_world)
   \<and> dict_lmdb_update ex_platform (ex_dict {DICT_FLAG_LOCK} []) ex_world ''alice'' ''1'' =
     Panic (''dict_lmdb_update: no DICT_FLAG_TRY1NULL | DICT_FLAG_TRY0NULL flag'', [])
           ((ex_dict {DICT_FLAG_LOCK} [])\<lparr>error := 0\<rparr>, ex_world)
   \<and> dict_lmdb_delete ex_platform (ex_dict {DICT_FLAG_LOCK} []) ex_world ''alice'' =
     Panic (''dict_lmdb_delete: no DICT_FLAG_TRY1NULL | DICT_FLAG_TRY0NULL flag'', [])
           ((ex_dict {DICT_FLAG_LOCK} [])\<lparr>error := 0\<rparr>, ex_world)
   \<and> dict_lmdb_sequence (ex_dict {DICT_FLAG_LOCK} []) ex_world 2 NULL NULL =
     Panic (''%s: invalid function: %d'', [S ''dict_lmdb_sequence'', D 2])
           ((ex_dict {DICT_FLAG_LOCK} [])\<lparr>error := 0\<rparr>, ex_world)"
  using misconfiguration_panics [of "ex_dict {DICT_FLAG_LOCK} []" ex_platform ex_world "''alice''"
      "''1''" 2 NULL NULL]
  by (simp add: ex_dict_def DICT_SEQ_FUN_FIRST_def DICT_SEQ_FUN_NEXT_def)

section \<open>Round trip of update and lookup\<close>






section \<open>Updating a key that exists\<close>

text \<open>
  C2, as the spec states it, fails on the code. With duplicate-ignore configured, update of
  an existing key does not return the success status 0 but the engine's key-exists status.
  A key that exists in the database without the sentinel is not seen by an update that
  writes with the sentinel: with no duplicate policy the update is not fatal but returns 0
  and stores a second entry, and with duplicate-replace it leaves the old value in its
  entry. On a handle with neither encoding-try flag the update panics whatever the
  duplicate policy, and when the engine or the lock fails the update is fatal whatever the
  policy.
\<close>

theorem update_existing_key_counterexample:
  "result_of (dict_lmdb_update ex_platform
       (ex_dict {DICT_FLAG_TRY1NULL, DICT_FLAG_DUP_IGNORE} ex_entries) ex_world ''alice'' ''2'')
     = Some MDB_KEYEXIST
   \<and> MDB_KEYEXIST \<noteq> 0
   \<and> result_of (dict_lmdb_update ex_platform
       (ex_dict {DICT_FLAG_TRY0NULL, DICT_FLAG_TRY1NULL} [(''alice'', ''1'')]) ex_world
       ''alice'' ''2'')
     = Some 0
   \<and> db (slmdb (fst (final_state (dict_lmdb_update ex_platform
       (ex_dict {DICT_FLAG_TRY0NULL, DICT_FLAG_TRY1NULL} [(''alice'', ''1'')]) ex_world
       ''alice'' ''2''))))
     = [(''alice'', ''1''), (''alice'' @ [NUL], ''2'' @ [NUL])]
   \<and> result_of (dict_lmdb_update ex_platform
       (ex_dict {DICT_FLAG_TRY0NULL, DICT_FLAG_TRY1NULL, DICT_FLAG_DUP_REPLACE} [(''alice'', ''1'')])
       ex_world ''alice'' ''2'')
     = Some 0
   \<and> db (slmdb (fst (final_state (dict_lmdb_update ex_platform
       (ex_dict {DICT_FLAG_TRY0NULL, DICT_FLAG_TRY1NULL, DICT_FLAG_DUP_REPLACE} [(''alice'', ''1'')])
       ex_world ''alice'' ''2''))))
     = [(''alice'', ''1''), (''alice'' @ [NUL], ''2'' @ [NUL])]
   \<and> dict_lmdb_update ex_platform (ex_dict {DICT_FLAG_DUP_REPLACE} ex_entries) ex_world
       ''alice'' ''2''
     = Panic (''dict_lmdb_update: no DICT_FLAG_TRY1NULL | DICT_FLAG_TRY0NULL flag'', [])
         (ex_dict {DICT_FLAG_DUP_REPLACE} ex_entries, ex_world)
   \<and> dict_lmdb_update ex_platform
       (ex_dict_faulty {DICT_FLAG_TRY1NULL, DICT_FLAG_DUP_IGNORE} ex_entries) ex_world
       ''alice'' ''2''
     = Fatal (''error updating %s:%s: %s'', [S ''lmdb'', S ''/etc/aliases'', MDB_STRERROR 5])
         (final_state (dict_lmdb_update ex_platform
            (ex_dict_faulty {DICT_FLAG_TRY1NULL, DICT_FLAG_DUP_IGNORE} ex_entries) ex_world
            ''alice'' ''2''))
   \<and> dict_lmdb_update ex_platform
       (ex_dict {DICT_FLAG_TRY1NULL, DICT_FLAG_DUP_IGNORE, DICT_FLAG_LOCK} ex_entries)
       (ex_world\<lparr>flock_script := [True]\<rparr>) ''alice'' ''2''
     = Fatal (''%s: lock dictionary: %m'', [S ''/etc/aliases''])
         (final_state (dict_lmdb_update ex_platform
            (ex_dict {DICT_FLAG_TRY1NULL, DICT_FLAG_DUP_IGNORE, DICT_FLAG_LOCK} ex_entries)
            (ex_world\<lparr>flock_script := [True]\<rparr>) ''alice'' ''2''))"
  by (simp add: ex_defs run_defs)

text \<open>
  C2, amended. With the engine and the lock working (no environment failure pending), on a
  handle with an encoding-try flag set, an update of a key that exists in the database
  under the encoding the update writes with: with duplicate-replace configured returns
  status 0 and the new value overwrites the old; otherwise, with duplicate-ignore
  configured, returns the engine's key-exists status (not 0) to the caller with the error
  indicator clear, logs nothing and leaves the database as it was; otherwise, with
  warn-on-duplicates configured, does the same and logs one warning; with none of the
  three configured it is fatal, the database as it was.
\<close>

theorem update_existing_key:
  assumes "script (slmdb dict) = []" and "flock_script w = []"
    and "DICT_FLAG_TRY1NULL \<in> flags dict \<or> DICT_FLAG_TRY0NULL \<in> flags dict"
    and "map_of (db (slmdb dict)) (wire_key dict name (write_encoding P dict)) = Some old"
  shows "(DICT_FLAG_DUP_REPLACE \<in> flags dict \<longrightarrow>
            (\<exists>dict' w'. dict_lmdb_update P dict w name val = Return 0 (dict', w')
               \<and> map_of (db (slmdb dict')) (wire_key dict name (write_encoding P dict))
                    = Some (wire_value val (write_encoding P dict))))
       \<and> (DICT_FLAG_DUP_REPLACE \<notin> flags dict \<and> DICT_FLAG_DUP_IGNORE \<in> flags dict \<longrightarrow>
            (\<exists>dict' w'. dict_lmdb_update P dict w name val = Return MDB_KEYEXIST (dict', w')
               \<and> error dict' = 0 \<and> db (slmdb dict') = db (slmdb dict)
               \<and> msg_log w' = msg_log w))
       \<and> (DICT_FLAG_DUP_REPLACE \<notin> flags dict \<and> DICT_FLAG_DUP_IGNORE \<notin> flags dict
            \<and> DICT_FLAG_DUP_WARN \<in> flags dict \<longrightarrow>
            (\<exists>dict' w'. dict_lmdb_update P dict w name val = Return MDB_KEYEXIST (dict', w')
               \<and> error dict' = 0 \<and> db (slmdb dict') = db (slmdb dict)
               \<and> msg_log w' = msg_log w @ [(WARN, (duplicate_entry_fmt,
                     [S (dict_type dict), S (dict_name dict),
                      S (wire_key dict name DICT_FLAG_TRY0NULL)]))]))
       \<and> (DICT_FLAG_DUP_REPLACE \<notin> flags dict \<and> DICT_FLAG_DUP_IGNORE \<notin> flags dict
            \<and> DICT_FLAG_DUP_WARN \<notin> flags dict \<longrightarrow>
            (\<exists>dict' w'. dict_lmdb_update P dict w name val =
               Fatal (duplicate_entry_fmt,
                     [S (dict_type dict), S (dict_name dict),
                      S (wire_key dict name DICT_FLAG_TRY0NULL)]) (dict', w')
               \<and> db (slmdb dict') = db (slmdb dict)))"
proof (cases "DICT_FLAG_FOLD_FIX \<in> flags dict")
  case True
  with assms show ?thesis
    by (auto simp: dict_lmdb_update_def fold_key_def Let_def case_prod_beta write_encoding_def
        wire_value_def key_shapes c_str_c_str update_status_def msg_warn_def flock_fails_ok
        flock_fails_proj slmdb_put_ok map_of_store_put MDB_codes split: if_splits)
next
  case False
  with assms show ?thesis
    by (auto simp: dict_lmdb_update_def fold_key_def Let_def case_prod_beta write_encoding_def
        wire_value_def key_shapes c_str_c_str update_status_def msg_warn_def flock_fails_ok
        flock_fails_proj slmdb_put_ok map_of_store_put MDB_codes split: if_splits)
qed

theorem update_existing_key_witness:
  "(\<exists>dict' w'. dict_lmdb_update ex_platform
        (ex_dict {DICT_FLAG_TRY1NULL, DICT_FLAG_DUP_REPLACE} ex_entries) ex_world ''alice'' ''2''
        = Return 0 (dict', w')
      \<and> map_of (db (slmdb dict')) (''alice'' @ [NUL]) = Some (''2'' @ [NUL]))
   \<and> (\<exists>dict' w'. dict_lmdb_update ex_platform
        (ex_dict {DICT_FLAG_TRY1NULL, DICT_FLAG_DUP_IGNORE} ex_entries) ex_world ''alice'' ''2''
        = Return MDB_KEYEXIST (dict', w')
      \<and> error dict' = 0 \<and> db (slmdb dict') = ex_entries \<and> msg_log w' = [])
   \<and> (\<exists>dict' w'. dict_lmdb_update ex_platform
        (ex_dict {DICT_FLAG_TRY1NULL, DICT_FLAG_DUP_WARN} ex_entries) ex_world ''alice'' ''2''
        = Return MDB_KEYEXIST (dict', w')
      \<and> error dict' = 0 \<and> db (slmdb dict') = ex_entries
      \<and> msg_log w' = [(WARN, (duplicate_entry_fmt, [S ''lmdb'', S ''/etc/aliases'', S ''alice'']))])
   \<and> (\<exists>dict' w'. dict_lmdb_update ex_platform
        (ex_dict {DICT_FLAG_TRY1NULL} ex_entries) ex_world ''alice'' ''2''
        = Fatal (duplicate_entry_fmt, [S ''lmdb'', S ''/etc/aliases'', S ''alice'']) (dict', w')
      \<and> db (slmdb dict') = ex_entries)"
proof -
  have a: "\<exists>dict' w'. dict_lmdb_update ex_platform
        (ex_dict {DICT_FLAG_TRY1NULL, DICT_FLAG_DUP_REPLACE} ex_entries) ex_world ''alice'' ''2''
        = Return 0 (dict', w')
      \<and> map_of (db (slmdb dict')) (''alice'' @ [NUL]) = Some (''2'' @ [NUL])"
    using update_existing_key [where dict = "ex_dict {DICT_FLAG_TRY1NULL, DICT_FLAG_DUP_REPLACE} ex_entries"
        and w = ex_world and P = ex_platform and name = "''alice''" and old = "''1'' @ [NUL]"
        and val = "''2''"]
    by (simp add: ex_defs wire_key_def wire_value_def write_encoding_def c_str_def NUL_def)
  have b: "\<exists>dict' w'. dict_lmdb_update ex_platform
        (ex_dict {DICT_FLAG_TRY1NULL, DICT_FLAG_DUP_IGNORE} ex_entries) ex_world ''alice'' ''2''
        = Return MDB_KEYEXIST (dict', w')
      \<and> error dict' = 0 \<and> db (slmdb dict') = ex_entries \<and> msg_log w' = []"
    using update_existing_key [where dict = "ex_dict {DICT_FLAG_TRY1NULL, DICT_FLAG_DUP_IGNORE} ex_entries"
        and w = ex_world and P = ex_platform and name = "''alice''" and old = "''1'' @ [NUL]"
        and val = "''2''"]
    by (simp add: ex_defs wire_key_def wire_value_def write_encoding_def c_str_def NUL_def)
  have c: "\<exists>dict' w'. dict_lmdb_update ex_platform
        (ex_dict {DICT_FLAG_TRY1NULL, DICT_FLAG_DUP_WARN} ex_entries) ex_world ''alice'' ''2''
        = Return MDB_KEYEXIST (dict', w')
      \<and> error dict' = 0 \<and> db (slmdb dict') = ex_entries
      \<and> msg_log w' = [(WARN, (duplicate_entry_fmt, [S ''lmdb'', S ''/etc/aliases'', S ''alice'']))]"
    using update_existing_key [where dict = "ex_dict {DICT_FLAG_TRY1NULL, DICT_FLAG_DUP_WARN} ex_entries"
        and w = ex_world and P = ex_platform and name = "''alice''" and old = "''1'' @ [NUL]"
        and val = "''2''"]
    by (simp add: ex_defs wire_key_def wire_value_def write_encoding_def c_str_def NUL_def)
  have d: "\<exists>dict' w'. dict_lmdb_update ex_platform
        (ex_dict {DICT_FLAG_TRY1NULL} ex_entries) ex_world ''alice'' ''2''
        = Fatal (duplicate_entry_fmt, [S ''lmdb'', S ''/etc/aliases'', S ''alice'']) (dict', w')
      \<and> db (slmdb dict') = ex_entries"
    using update_existing_key [where dict = "ex_dict {DICT_FLAG_TRY1NULL} ex_entries"
        and w = ex_world and P = ex_platform and name = "''alice''" and old = "''1'' @ [NUL]"
        and val = "''2''"]
    by (simp add: ex_defs wire_key_def wire_value_def write_encoding_def c_str_def NUL_def)
  from a b c d show ?thesis by blast
qed

section \<open>The advisory lock\<close>

lemma lookup_unlocks:
  assumes "DICT_FLAG_LOCK \<in> flags dict" and "dict_lmdb_lookup P dict w name = Return p (dict', w')"
  shows "lock w' (lock_fd dict) = MYFLOCK_OP_NONE \<and>
     flock_calls w' = flock_calls w @
       [(lock_fd dict, MYFLOCK_OP_SHARED), (lock_fd dict, MYFLOCK_OP_NONE)]"
  using assms
  by (auto simp: dict_lmdb_lookup_def lookup_try_def fold_key_def Let_def case_prod_beta
      flock_fails_proj flock_fails_lock split: if_splits)

lemma delete_unlocks:
  assumes "DICT_FLAG_LOCK \<in> flags dict" and "dict_lmdb_delete P dict w name = Return st (dict', w')"
  shows "lock w' (lock_fd dict) = MYFLOCK_OP_NONE \<and>
     flock_calls w' = flock_calls w @
       [(lock_fd dict, MYFLOCK_OP_EXCLUSIVE), (lock_fd dict, MYFLOCK_OP_NONE)]"
  using assms
  by (auto simp: dict_lmdb_delete_def delete_try_def fold_key_def Let_def case_prod_beta
      flock_fails_proj flock_fails_lock split: if_splits)

lemma update_unlocks:
  assumes "DICT_FLAG_LOCK \<in> flags dict"
    and "dict_lmdb_update P dict w name val = Return st (dict', w')"
  shows "lock w' (lock_fd dict) = MYFLOCK_OP_NONE \<and>
     flock_calls w' = flock_calls w @
       [(lock_fd dict, MYFLOCK_OP_EXCLUSIVE), (lock_fd dict, MYFLOCK_OP_NONE)]"
  using assms
  by (auto simp: dict_lmdb_update_def fold_key_def Let_def case_prod_beta
      flock_fails_proj flock_fails_lock split: if_splits sum.splits dest!: update_status_world)

lemma sequence_unlocks:
  assumes "DICT_FLAG_LOCK \<in> flags dict"
    and "dict_lmdb_sequence dict w fn key0 value0 = Return r (dict', w')"
  shows "lock w' (lock_fd dict) = MYFLOCK_OP_NONE \<and>
     flock_calls w' = flock_calls w @
       [(lock_fd dict, MYFLOCK_OP_SHARED), (lock_fd dict, MYFLOCK_OP_NONE)]"
  using assms
  by (auto simp: dict_lmdb_sequence_def Let_def case_prod_beta
      flock_fails_proj flock_fails_lock split: if_splits)

lemma flock_fails_failed:
  "fst (flock_fails dict w op) \<Longrightarrow> lock (snd (flock_fails dict w op)) = lock w"
  by (simp add: flock_fails_def myflock_def Let_def case_prod_beta split: list.splits if_splits)

lemma lookup_fatal_lock:
  assumes "DICT_FLAG_LOCK \<in> flags dict" and "dict_lmdb_lookup P dict w name = Fatal m (dict', w')"
  shows "lock w' = lock w \<or> lock w' (lock_fd dict) = MYFLOCK_OP_SHARED"
  using assms
  by (auto simp: dict_lmdb_lookup_def lookup_try_def fold_key_def Let_def case_prod_beta
      flock_fails_failed flock_fails_lock split: if_splits)

lemma delete_fatal_lock:
  assumes "DICT_FLAG_LOCK \<in> flags dict" and "dict_lmdb_delete P dict w name = Fatal m (dict', w')"
  shows "lock w' = lock w \<or> lock w' (lock_fd dict) = MYFLOCK_OP_EXCLUSIVE"
  using assms
  by (auto simp: dict_lmdb_delete_def delete_try_def fold_key_def Let_def case_prod_beta
      flock_fails_failed flock_fails_lock split: if_splits)

lemma update_fatal_lock:
  assumes "DICT_FLAG_LOCK \<in> flags dict"
    and "dict_lmdb_update P dict w name val = Fatal m (dict', w')"
  shows "lock w' = lock w \<or> lock w' (lock_fd dict) = MYFLOCK_OP_EXCLUSIVE"
  using assms
  by (auto simp: dict_lmdb_update_def fold_key_def Let_def case_prod_beta
      flock_fails_failed flock_fails_lock split: if_splits sum.splits dest!: update_status_world)

lemma sequence_fatal_lock:
  assumes "DICT_FLAG_LOCK \<in> flags dict"
    and "dict_lmdb_sequence dict w fn key0 value0 = Fatal m (dict', w')"
  shows "lock w' = lock w \<or> lock w' (lock_fd dict) = MYFLOCK_OP_SHARED"
  using assms
  by (auto simp: dict_lmdb_sequence_def Let_def case_prod_beta
      flock_fails_failed flock_fails_lock split: if_splits)

text \<open>
  C6, as the spec states it, fails on the code: on a fatal exit the lock is not released.
  An update of an existing key with no duplicate policy, on a handle with locking enabled,
  ends in \<^verbatim>\<open>msg_fatal\<close> with the exclusive lock still held, after one call of the locking
  primitive (the acquisition).
\<close>

theorem lock_held_on_fatal_counterexample:
  "\<not> returns (dict_lmdb_update ex_platform
         (ex_dict {DICT_FLAG_TRY1NULL, DICT_FLAG_LOCK} ex_entries) ex_world ''alice'' ''2'')
   \<and> lock (snd (final_state (dict_lmdb_update ex_platform
         (ex_dict {DICT_FLAG_TRY1NULL, DICT_FLAG_LOCK} ex_entries) ex_world ''alice'' ''2''))) 3
       = MYFLOCK_OP_EXCLUSIVE
   \<and> flock_calls (snd (final_state (dict_lmdb_update ex_platform
         (ex_dict {DICT_FLAG_TRY1NULL, DICT_FLAG_LOCK} ex_entries) ex_world ''alice'' ''2'')))
       = [(3, MYFLOCK_OP_EXCLUSIVE)]"
  by (simp add: ex_defs run_defs)

text \<open>
  C6, amended. On a handle with locking enabled, every call of lookup, update, delete or
  sequence that returns to the caller (found, not found, duplicate skipped, end of scan)
  has called the locking primitive exactly twice, first to acquire the lock (shared for
  lookup and sequence, exclusive for update and delete) and then to release it, and the
  lock is not held when the call returns. A call that ends in \<^verbatim>\<open>msg_fatal\<close> has not released
  the lock: the process terminates with the locks as they were before the call (the
  acquisition failed) or with the lock held in the mode the call acquired it in.
\<close>

theorem lock_released_on_return:
  assumes "DICT_FLAG_LOCK \<in> flags dict"
  shows "(dict_lmdb_lookup P dict w name = Return p (dict1, w1) \<longrightarrow>
            lock w1 (lock_fd dict) = MYFLOCK_OP_NONE \<and>
            flock_calls w1 = flock_calls w @
              [(lock_fd dict, MYFLOCK_OP_SHARED), (lock_fd dict, MYFLOCK_OP_NONE)])
       \<and> (dict_lmdb_update P dict w name val = Return st2 (dict2, w2) \<longrightarrow>
            lock w2 (lock_fd dict) = MYFLOCK_OP_NONE \<and>
            flock_calls w2 = flock_calls w @
              [(lock_fd dict, MYFLOCK_OP_EXCLUSIVE), (lock_fd dict, MYFLOCK_OP_NONE)])
       \<and> (dict_lmdb_delete P dict w name = Return st3 (dict3, w3) \<longrightarrow>
            lock w3 (lock_fd dict) = MYFLOCK_OP_NONE \<and>
            flock_calls w3 = flock_calls w @
              [(lock_fd dict, MYFLOCK_OP_EXCLUSIVE), (lock_fd dict, MYFLOCK_OP_NONE)])
       \<and> (dict_lmdb_sequence dict w fn key0 value0 = Return r4 (dict4, w4) \<longrightarrow>
            lock w4 (lock_fd dict) = MYFLOCK_OP_NONE \<and>
            flock_calls w4 = flock_calls w @
              [(lock_fd dict, MYFLOCK_OP_SHARED), (lock_fd dict, MYFLOCK_OP_NONE)])
       \<and> (dict_lmdb_lookup P dict w name = Fatal m5 (dict5, w5) \<longrightarrow>
            lock w5 = lock w \<or> lock w5 (lock_fd dict) = MYFLOCK_OP_SHARED)
       \<and> (dict_lmdb_update P dict w name val = Fatal m6 (dict6, w6) \<longrightarrow>
            lock w6 = lock w \<or> lock w6 (lock_fd dict) = MYFLOCK_OP_EXCLUSIVE)
       \<and> (dict_lmdb_delete P dict w name = Fatal m7 (dict7, w7) \<longrightarrow>
            lock w7 = lock w \<or> lock w7 (lock_fd dict) = MYFLOCK_OP_EXCLUSIVE)
       \<and> (dict_lmdb_sequence dict w fn key0 value0 = Fatal m8 (dict8, w8) \<longrightarrow>
            lock w8 = lock w \<or> lock w8 (lock_fd dict) = MYFLOCK_OP_SHARED)"
proof -
  have a: "dict_lmdb_lookup P dict w name = Return p (dict1, w1) \<longrightarrow>
            lock w1 (lock_fd dict) = MYFLOCK_OP_NONE \<and>
            flock_calls w1 = flock_calls w @
              [(lock_fd dict, MYFLOCK_OP_SHARED), (lock_fd dict, MYFLOCK_OP_NONE)]"
    by (rule impI) (rule lookup_unlocks [OF assms])
  have b: "dict_lmdb_update P dict w name val = Return st2 (dict2, w2) \<longrightarrow>
            lock w2 (lock_fd dict) = MYFLOCK_OP_NONE \<and>
            flock_calls w2 = flock_calls w @
              [(lock_fd dict, MYFLOCK_OP_EXCLUSIVE), (lock_fd dict, MYFLOCK_OP_NONE)]"
    by (rule impI) (rule update_unlocks [OF assms])
  have c: "dict_lmdb_delete P dict w name = Return st3 (dict3, w3) \<longrightarrow>
            lock w3 (lock_fd dict) = MYFLOCK_OP_NONE \<and>
            flock_calls w3 = flock_calls w @
              [(lock_fd dict, MYFLOCK_OP_EXCLUSIVE), (lock_fd dict, MYFLOCK_OP_NONE)]"
    by (rule impI) (rule delete_unlocks [OF assms])
  have d: "dict_lmdb_sequence dict w fn key0 value0 = Return r4 (dict4, w4) \<longrightarrow>
            lock w4 (lock_fd dict) = MYFLOCK_OP_NONE \<and>
            flock_calls w4 = flock_calls w @
              [(lock_fd dict, MYFLOCK_OP_SHARED), (lock_fd dict, MYFLOCK_OP_NONE)]"
    by (rule impI) (rule sequence_unlocks [OF assms])
  have e: "dict_lmdb_lookup P dict w name = Fatal m5 (dict5, w5) \<longrightarrow>
            lock w5 = lock w \<or> lock w5 (lock_fd dict) = MYFLOCK_OP_SHARED"
    by (rule impI) (rule lookup_fatal_lock [OF assms])
  have f: "dict_lmdb_update P dict w name val = Fatal m6 (dict6, w6) \<longrightarrow>
            lock w6 = lock w \<or> lock w6 (lock_fd dict) = MYFLOCK_OP_EXCLUSIVE"
    by (rule impI) (rule update_fatal_lock [OF assms])
  have g: "dict_lmdb_delete P dict w name = Fatal m7 (dict7, w7) \<longrightarrow>
            lock w7 = lock w \<or> lock w7 (lock_fd dict) = MYFLOCK_OP_EXCLUSIVE"
    by (rule impI) (rule delete_fatal_lock [OF assms])
  have h: "dict_lmdb_sequence dict w fn key0 value0 = Fatal m8 (dict8, w8) \<longrightarrow>
            lock w8 = lock w \<or> lock w8 (lock_fd dict) = MYFLOCK_OP_SHARED"
    by (rule impI) (rule sequence_fatal_lock [OF assms])
  from a b c d e f g h show ?thesis by (intro conjI)
qed

theorem lock_released_on_return_witness:
  "DICT_FLAG_LOCK \<in> flags (ex_dict {DICT_FLAG_TRY1NULL, DICT_FLAG_LOCK} ex_entries)
   \<and> returns (dict_lmdb_lookup ex_platform (ex_dict {DICT_FLAG_TRY1NULL, DICT_FLAG_LOCK} ex_entries)
        ex_world ''alice'')
   \<and> lock (snd (final_state (dict_lmdb_lookup ex_platform
        (ex_dict {DICT_FLAG_TRY1NULL, DICT_FLAG_LOCK} ex_entries) ex_world ''alice''))) 3
      = MYFLOCK_OP_NONE
   \<and> returns (dict_lmdb_update ex_platform (ex_dict {DICT_FLAG_TRY1NULL, DICT_FLAG_LOCK} ex_entries)
        ex_world ''bob'' ''2'')
   \<and> lock (snd (final_state (dict_lmdb_update ex_platform
        (ex_dict {DICT_FLAG_TRY1NULL, DICT_FLAG_LOCK} ex_entries) ex_world ''bob'' ''2''))) 3
      = MYFLOCK_OP_NONE
   \<and> returns (dict_lmdb_delete ex_platform (ex_dict {DICT_FLAG_TRY1NULL, DICT_FLAG_LOCK} ex_entries)
        ex_world ''bob'')
   \<and> lock (snd (final_state (dict_lmdb_delete ex_platform
        (ex_dict {DICT_FLAG_TRY1NULL, DICT_FLAG_LOCK} ex_entries) ex_world ''bob''))) 3
      = MYFLOCK_OP_NONE
   \<and> returns (dict_lmdb_sequence (ex_dict {DICT_FLAG_TRY1NULL, DICT_FLAG_LOCK} ex_entries)
        ex_world DICT_SEQ_FUN_FIRST NULL NULL)
   \<and> lock (snd (final_state (dict_lmdb_sequence
        (ex_dict {DICT_FLAG_TRY1NULL, DICT_FLAG_LOCK} ex_entries) ex_world
        DICT_SEQ_FUN_FIRST NULL NULL))) 3
      = MYFLOCK_OP_NONE
   \<and> DICT_FLAG_LOCK \<in> flags (ex_dict_faulty {DICT_FLAG_TRY1NULL, DICT_FLAG_LOCK} ex_entries)
   \<and> \<not> returns (dict_lmdb_lookup ex_platform (ex_dict_faulty {DICT_FLAG_TRY1NULL, DICT_FLAG_LOCK} ex_entries)
        ex_world ''alice'')
   \<and> (lock (snd (final_state (dict_lmdb_lookup ex_platform
          (ex_dict_faulty {DICT_FLAG_TRY1NULL, DICT_FLAG_LOCK} ex_entries) ex_world ''alice'')))
        = lock ex_world
       \<or> lock (snd (final_state (dict_lmdb_lookup ex_platform
          (ex_dict_faulty {DICT_FLAG_TRY1NULL, DICT_FLAG_LOCK} ex_entries) ex_world ''alice''))) 3
        = MYFLOCK_OP_SHARED)
   \<and> (lock (snd (final_state (dict_lmdb_update ex_platform
          (ex_dict_faulty {DICT_FLAG_TRY1NULL, DICT_FLAG_LOCK} ex_entries) ex_world ''alice'' ''2'')))
        = lock ex_world
       \<or> lock (snd (final_state (dict_lmdb_update ex_platform
          (ex_dict_faulty {DICT_FLAG_TRY1NULL, DICT_FLAG_LOCK} ex_entries) ex_world ''alice'' ''2''))) 3
        = MYFLOCK_OP_EXCLUSIVE)
   \<and> (lock (snd (final_state (dict_lmdb_delete ex_platform
          (ex_dict_faulty {DICT_FLAG_TRY1NULL, DICT_FLAG_LOCK} ex_entries) ex_world ''alice'')))
        = lock ex_world
       \<or> lock (snd (final_state (dict_lmdb_delete ex_platform
          (ex_dict_faulty {DICT_FLAG_TRY1NULL, DICT_FLAG_LOCK} ex_entries) ex_world ''alice''))) 3
        = MYFLOCK_OP_EXCLUSIVE)
   \<and> (lock (snd (final_state (dict_lmdb_sequence
          (ex_dict_faulty {DICT_FLAG_TRY1NULL, DICT_FLAG_LOCK} ex_entries) ex_world
          DICT_SEQ_FUN_FIRST NULL NULL)))
        = lock ex_world
       \<or> lock (snd (final_state (dict_lmdb_sequence
          (ex_dict_faulty {DICT_FLAG_TRY1NULL, DICT_FLAG_LOCK} ex_entries) ex_world
          DICT_SEQ_FUN_FIRST NULL NULL))) 3
        = MYFLOCK_OP_SHARED)"
proof -
  let ?d = "ex_dict {DICT_FLAG_TRY1NULL, DICT_FLAG_LOCK} ex_entries"
  let ?o1 = "dict_lmdb_lookup ex_platform ?d ex_world ''alice''"
  let ?o2 = "dict_lmdb_update ex_platform ?d ex_world ''bob'' ''2''"
  let ?o3 = "dict_lmdb_delete ex_platform ?d ex_world ''bob''"
  let ?o4 = "dict_lmdb_sequence ?d ex_world DICT_SEQ_FUN_FIRST NULL NULL"
  let ?f = "ex_dict_faulty {DICT_FLAG_TRY1NULL, DICT_FLAG_LOCK} ex_entries"
  let ?o5 = "dict_lmdb_lookup ex_platform ?f ex_world ''alice''"
  let ?o6 = "dict_lmdb_update ex_platform ?f ex_world ''alice'' ''2''"
  let ?o7 = "dict_lmdb_delete ex_platform ?f ex_world ''alice''"
  let ?o8 = "dict_lmdb_sequence ?f ex_world DICT_SEQ_FUN_FIRST NULL NULL"
  let ?m = "\<lambda>fmt. (fmt, [S ''lmdb'', S ''/etc/aliases'', MDB_STRERROR 5])"
  have h: "DICT_FLAG_LOCK \<in> flags ?d" and fd: "lock_fd ?d = 3"
    by (simp_all add: ex_defs)
  have hf: "DICT_FLAG_LOCK \<in> flags ?f" and fdf: "lock_fd ?f = 3"
    by (simp_all add: ex_defs)
  have r1: "?o1 = Return (the (result_of ?o1)) (fst (final_state ?o1), snd (final_state ?o1))"
    by (simp add: ex_defs run_defs)
  have r2: "?o2 = Return (the (result_of ?o2)) (fst (final_state ?o2), snd (final_state ?o2))"
    by (simp add: ex_defs run_defs)
  have r3: "?o3 = Return (the (result_of ?o3)) (fst (final_state ?o3), snd (final_state ?o3))"
    by (simp add: ex_defs run_defs)
  have r4: "?o4 = Return (the (result_of ?o4)) (fst (final_state ?o4), snd (final_state ?o4))"
    by (simp add: ex_defs run_defs)
  have r5: "?o5 = Fatal (?m ''error reading %s:%s: %s'')
                    (fst (final_state ?o5), snd (final_state ?o5))"
    by (simp add: ex_defs run_defs)
  have r6: "?o6 = Fatal (?m ''error updating %s:%s: %s'')
                    (fst (final_state ?o6), snd (final_state ?o6))"
    by (simp add: ex_defs run_defs)
  have r7: "?o7 = Fatal (?m ''error deleting from %s:%s: %s'')
                    (fst (final_state ?o7), snd (final_state ?o7))"
    by (simp add: ex_defs run_defs)
  have r8: "?o8 = Fatal (?m ''error seeking %s:%s: %s'')
                    (fst (final_state ?o8), snd (final_state ?o8))"
    by (simp add: ex_defs run_defs)
  have t: "returns ?o1" "returns ?o2" "returns ?o3" "returns ?o4" "\<not> returns ?o5"
    by (simp_all add: ex_defs run_defs)
  from lock_released_on_return [OF h, where w = ex_world and name = "''alice''"
      and P = ex_platform and p = "the (result_of ?o1)" and ?dict1.0 = "fst (final_state ?o1)"
      and ?w1.0 = "snd (final_state ?o1)"] r1 fd
  have l1: "lock (snd (final_state ?o1)) 3 = MYFLOCK_OP_NONE" by simp
  from lock_released_on_return [OF h, where w = ex_world and name = "''bob''"
      and P = ex_platform and val = "''2''"
      and ?st2.0 = "the (result_of ?o2)" and ?dict2.0 = "fst (final_state ?o2)"
      and ?w2.0 = "snd (final_state ?o2)"
      and ?st3.0 = "the (result_of ?o3)" and ?dict3.0 = "fst (final_state ?o3)"
      and ?w3.0 = "snd (final_state ?o3)"] r2 r3 fd
  have l2: "lock (snd (final_state ?o2)) 3 = MYFLOCK_OP_NONE"
    and l3: "lock (snd (final_state ?o3)) 3 = MYFLOCK_OP_NONE" by simp_all
  from lock_released_on_return [OF h, where w = ex_world and fn = DICT_SEQ_FUN_FIRST
      and ?key0.0 = NULL and ?value0.0 = NULL
      and ?r4.0 = "the (result_of ?o4)" and ?dict4.0 = "fst (final_state ?o4)"
      and ?w4.0 = "snd (final_state ?o4)"] r4 fd
  have l4: "lock (snd (final_state ?o4)) 3 = MYFLOCK_OP_NONE" by simp
  from lock_released_on_return [OF hf, where w = ex_world and name = "''alice''"
      and P = ex_platform and val = "''2''"
      and fn = DICT_SEQ_FUN_FIRST and ?key0.0 = NULL and ?value0.0 = NULL
      and ?m5.0 = "?m ''error reading %s:%s: %s''" and ?dict5.0 = "fst (final_state ?o5)"
      and ?w5.0 = "snd (final_state ?o5)"
      and ?m6.0 = "?m ''error updating %s:%s: %s''" and ?dict6.0 = "fst (final_state ?o6)"
      and ?w6.0 = "snd (final_state ?o6)"
      and ?m7.0 = "?m ''error deleting from %s:%s: %s''" and ?dict7.0 = "fst (final_state ?o7)"
      and ?w7.0 = "snd (final_state ?o7)"
      and ?m8.0 = "?m ''error seeking %s:%s: %s''" and ?dict8.0 = "fst (final_state ?o8)"
      and ?w8.0 = "snd (final_state ?o8)"] r5 r6 r7 r8 fdf
  have l5: "lock (snd (final_state ?o5)) = lock ex_world
              \<or> lock (snd (final_state ?o5)) 3 = MYFLOCK_OP_SHARED"
    and l6: "lock (snd (final_state ?o6)) = lock ex_world
              \<or> lock (snd (final_state ?o6)) 3 = MYFLOCK_OP_EXCLUSIVE"
    and l7: "lock (snd (final_state ?o7)) = lock ex_world
              \<or> lock (snd (final_state ?o7)) 3 = MYFLOCK_OP_EXCLUSIVE"
    and l8: "lock (snd (final_state ?o8)) = lock ex_world
              \<or> lock (snd (final_state ?o8)) 3 = MYFLOCK_OP_SHARED"
    by simp_all
  from h t(1-4) l1 l2 l3 l4 hf t(5) l5 l6 l7 l8 show ?thesis by (intro conjI)
qed

section \<open>The buffers of the handle\<close>

lemma lookup_try_Inr:
  "lookup_try dict name sz other = Inr x \<Longrightarrow>
     key_buf (snd x) = key_buf dict \<and> db (slmdb (snd x)) = db (slmdb dict) \<and>
     (fst x = NULL \<and> val_buf (snd x) = val_buf dict \<and> flags (snd x) = flags dict
      \<or> fst x = STR_VAL_BUF \<and> flags (snd x) = flags dict - {other} \<and>
        (\<exists>v. map_of (db (slmdb dict)) (mem name sz) = Some v
              \<and> val_buf (snd x) = SCOPY (val_buf dict) v))"
  by (auto simp: lookup_try_def case_prod_beta Let_def SCOPY_def slmdb_get_def engine_call_frame
      MDB_codes split: if_splits option.splits)

lemma lookup_Return_cases:
  assumes "dict_lmdb_lookup P dict w name = Return p (dict', w')"
  shows "(DICT_FLAG_TRY1NULL \<in> flags dict
            \<and> lookup_try (fst (fold_key (dict\<lparr>error := 0\<rparr>) name))
                  (snd (fold_key (dict\<lparr>error := 0\<rparr>) name))
                  (size_t_of_int P (int_of_size_t (strlen name) + 1)) DICT_FLAG_TRY0NULL = Inr (p, dict')
            \<and> (p \<noteq> NULL \<or> DICT_FLAG_TRY0NULL \<notin> flags dict'))
       \<or> (DICT_FLAG_TRY1NULL \<in> flags dict
            \<and> (\<exists>d3. lookup_try (fst (fold_key (dict\<lparr>error := 0\<rparr>) name))
                        (snd (fold_key (dict\<lparr>error := 0\<rparr>) name))
                        (size_t_of_int P (int_of_size_t (strlen name) + 1)) DICT_FLAG_TRY0NULL = Inr (NULL, d3)
                      \<and> DICT_FLAG_TRY0NULL \<in> flags d3
                      \<and> lookup_try d3 (snd (fold_key (dict\<lparr>error := 0\<rparr>) name))
                           (size_t_of_int P (int_of_size_t (strlen name)))
                           DICT_FLAG_TRY1NULL = Inr (p, dict')))
       \<or> (DICT_FLAG_TRY1NULL \<notin> flags dict \<and> DICT_FLAG_TRY0NULL \<in> flags dict
            \<and> lookup_try (fst (fold_key (dict\<lparr>error := 0\<rparr>) name))
                  (snd (fold_key (dict\<lparr>error := 0\<rparr>) name))
                  (size_t_of_int P (int_of_size_t (strlen name))) DICT_FLAG_TRY1NULL = Inr (p, dict'))"
  using assms
  apply (simp add: dict_lmdb_lookup_def Let_def case_prod_beta split: if_splits sum.splits)
    apply (auto simp: prod_eq_iff fold_key_def)
  done

lemma lookup_overwrites:
  assumes "dict_lmdb_lookup P dict w name = Return p (dict', w')" and "p \<noteq> NULL"
  shows "p = STR_VAL_BUF \<and> key_buf dict' = key_buf dict \<and>
     ((DICT_FLAG_TRY1NULL \<in> flags dict \<and> resolved DICT_FLAG_TRY1NULL dict' \<and>
        (\<exists>v. map_of (db (slmdb dict)) (probe_key P dict name DICT_FLAG_TRY1NULL) = Some v
              \<and> val_buf dict' = SCOPY (val_buf dict) v))
      \<or> (DICT_FLAG_TRY0NULL \<in> flags dict \<and> resolved DICT_FLAG_TRY0NULL dict' \<and>
        (\<exists>v. map_of (db (slmdb dict)) (probe_key P dict name DICT_FLAG_TRY0NULL) = Some v
              \<and> val_buf dict' = SCOPY (val_buf dict) v)))"
proof -
  let ?d1 = "fst (fold_key (dict\<lparr>error := 0\<rparr>) name)"
  let ?n = "snd (fold_key (dict\<lparr>error := 0\<rparr>) name)"
  have k1: "mem (if DICT_FLAG_FOLD_FIX \<in> flags dict then lowercase name else name)
              (size_t_of_int P (int_of_size_t (strlen name) + 1))
            = probe_key P dict name DICT_FLAG_TRY1NULL"
    and k0: "mem (if DICT_FLAG_FOLD_FIX \<in> flags dict then lowercase name else name)
              (size_t_of_int P (int_of_size_t (strlen name)))
            = probe_key P dict name DICT_FLAG_TRY0NULL"
    by (simp_all add: probe_key_def fold_key_def)
  from lookup_Return_cases [OF assms(1)]
  consider
    (first) "DICT_FLAG_TRY1NULL \<in> flags dict"
      "lookup_try ?d1 ?n (size_t_of_int P (int_of_size_t (strlen name) + 1)) DICT_FLAG_TRY0NULL = Inr (p, dict')"
  | (second) d3 where "DICT_FLAG_TRY1NULL \<in> flags dict"
      "lookup_try ?d1 ?n (size_t_of_int P (int_of_size_t (strlen name) + 1)) DICT_FLAG_TRY0NULL = Inr (NULL, d3)"
      "DICT_FLAG_TRY0NULL \<in> flags d3"
      "lookup_try d3 ?n (size_t_of_int P (int_of_size_t (strlen name))) DICT_FLAG_TRY1NULL = Inr (p, dict')"
  | (only0) "DICT_FLAG_TRY1NULL \<notin> flags dict" "DICT_FLAG_TRY0NULL \<in> flags dict"
      "lookup_try ?d1 ?n (size_t_of_int P (int_of_size_t (strlen name))) DICT_FLAG_TRY1NULL = Inr (p, dict')"
    by blast
  then show ?thesis
  proof cases
    case first
    from lookup_try_Inr [OF first(2)] assms(2) first(1) show ?thesis
      by (auto simp: fold_key_proj k0 k1 resolved_def)
  next
    case second
    from lookup_try_Inr [OF second(2)] lookup_try_Inr [OF second(4)] assms(2) second(1,3)
    show ?thesis
      by (auto simp: fold_key_proj k0 k1 resolved_def)
  next
    case only0
    from lookup_try_Inr [OF only0(3)] assms(2) only0(1,2) show ?thesis
      by (auto simp: fold_key_proj k0 k1 resolved_def)
  qed
qed

lemma sequence_overwrites:
  assumes "dict_lmdb_sequence dict w fn key0 value0 = Return (0, k, v) (dict', w')"
  shows "k = STR_KEY_BUF \<and>
     (\<exists>i. i < length (db (slmdb dict)) \<and> cursor (slmdb dict') = Some i
        \<and> key_buf dict' = SCOPY (key_buf dict) (fst (db (slmdb dict) ! i))
        \<and> (snd (db (slmdb dict) ! i) \<noteq> [] \<longrightarrow>
              v = STR_VAL_BUF
              \<and> val_buf dict' = SCOPY (val_buf dict) (snd (db (slmdb dict) ! i)))
        \<and> (snd (db (slmdb dict) ! i) = [] \<longrightarrow> v = value0 \<and> val_buf dict' = val_buf dict))"
proof -
  let ?r = "slmdb_cursor_get (slmdb dict)
              (if fn = DICT_SEQ_FUN_FIRST then MDB_FIRST else MDB_NEXT)"
  from assms have st: "fst ?r = 0"
    by (simp add: dict_lmdb_sequence_def Let_def case_prod_beta split: if_splits)
  from assms st have eq: "k = STR_KEY_BUF"
    "key_buf dict' = SCOPY (key_buf dict) (fst (snd ?r))"
    "slmdb dict' = snd (snd (snd ?r))"
    "fst (snd (snd ?r)) \<noteq> [] \<longrightarrow>
       v = STR_VAL_BUF \<and> val_buf dict' = SCOPY (val_buf dict) (fst (snd (snd ?r)))"
    "fst (snd (snd ?r)) = [] \<longrightarrow> v = value0 \<and> val_buf dict' = val_buf dict"
    by (auto simp: dict_lmdb_sequence_def Let_def case_prod_beta SCOPY_def split: if_splits)
  from slmdb_cursor_get_cases [OF st] obtain i where
    "i < length (db (slmdb dict))" "cursor (snd (snd (snd ?r))) = Some i"
    "fst (snd ?r) = fst (db (slmdb dict) ! i)" "fst (snd (snd ?r)) = snd (db (slmdb dict) ! i)"
    by blast
  with eq show ?thesis by auto
qed

text \<open>
  C10, as stated, fails on the code: a successful sequence call does not always overwrite
  the value buffer. On a handle that writes without the sentinel, after the updates of
  \<open>a\<close> with the empty value and of \<open>b\<close> with \<open>1\<close> and a lookup of \<open>b\<close>, the value buffer
  holds \<open>1\<close>; the sequence call that follows succeeds with the entry of \<open>a\<close>, leaves the
  value buffer as it was and does not assign the caller's value pointer, so what the
  lookup returned still reads \<open>1\<close>.
\<close>

theorem sequence_keeps_value_buffer_counterexample:
  "val_buf (fst (ex_run {DICT_FLAG_TRY0NULL} []
                   [UPDATE ''a'' '''', UPDATE ''b'' ''1'', LOOKUP ''b''])) = Some ''1''
   \<and> result_of (dict_lmdb_sequence
        (fst (ex_run {DICT_FLAG_TRY0NULL} [] [UPDATE ''a'' '''', UPDATE ''b'' ''1'', LOOKUP ''b'']))
        (snd (ex_run {DICT_FLAG_TRY0NULL} [] [UPDATE ''a'' '''', UPDATE ''b'' ''1'', LOOKUP ''b'']))
        DICT_SEQ_FUN_FIRST NULL NULL) = Some (0, STR_KEY_BUF, NULL)
   \<and> val_buf (fst (final_state (dict_lmdb_sequence
        (fst (ex_run {DICT_FLAG_TRY0NULL} [] [UPDATE ''a'' '''', UPDATE ''b'' ''1'', LOOKUP ''b'']))
        (snd (ex_run {DICT_FLAG_TRY0NULL} [] [UPDATE ''a'' '''', UPDATE ''b'' ''1'', LOOKUP ''b'']))
        DICT_SEQ_FUN_FIRST NULL NULL))) = Some ''1''"
  by (simp add: ex_defs run_defs)

text \<open>
  C10, amended. Lookup and sequence hand out the strings of buffers the handle owns, one
  value buffer for both and one key buffer for sequence. Every lookup that finds the key
  returns the string of the value buffer, has overwritten that buffer with the value the
  engine gave for the probe that hit (the probe of the encoding the handle is then resolved
  to), and leaves the key buffer alone. Every sequence call that returns an entry returns the string of the key
  buffer as the key and has overwritten that buffer with the entry's key; when the entry's
  value is not empty it returns the string of the value buffer and has overwritten it with
  the entry's value, and when the value is empty it leaves the value buffer and the
  caller's value pointer as they were. So the content behind a pointer from an earlier call
  is replaced exactly when a later call overwrites the same buffer.
\<close>

theorem result_buffers_overwritten:
  "(dict_lmdb_lookup P dict w name = Return p (dict1, w1) \<and> p \<noteq> NULL \<longrightarrow>
      p = STR_VAL_BUF \<and> key_buf dict1 = key_buf dict \<and>
      ((DICT_FLAG_TRY1NULL \<in> flags dict \<and> resolved DICT_FLAG_TRY1NULL dict1 \<and>
         (\<exists>v. map_of (db (slmdb dict)) (probe_key P dict name DICT_FLAG_TRY1NULL) = Some v
               \<and> val_buf dict1 = SCOPY (val_buf dict) v))
       \<or> (DICT_FLAG_TRY0NULL \<in> flags dict \<and> resolved DICT_FLAG_TRY0NULL dict1 \<and>
         (\<exists>v. map_of (db (slmdb dict)) (probe_key P dict name DICT_FLAG_TRY0NULL) = Some v
               \<and> val_buf dict1 = SCOPY (val_buf dict) v))))
   \<and> (dict_lmdb_sequence dict w fn key0 value0 = Return (0, k, v) (dict2, w2) \<longrightarrow>
      k = STR_KEY_BUF \<and>
      (\<exists>i. i < length (db (slmdb dict)) \<and> cursor (slmdb dict2) = Some i
         \<and> key_buf dict2 = SCOPY (key_buf dict) (fst (db (slmdb dict) ! i))
         \<and> (snd (db (slmdb dict) ! i) \<noteq> [] \<longrightarrow>
               v = STR_VAL_BUF
               \<and> val_buf dict2 = SCOPY (val_buf dict) (snd (db (slmdb dict) ! i)))
         \<and> (snd (db (slmdb dict) ! i) = [] \<longrightarrow> v = value0 \<and> val_buf dict2 = val_buf dict)))"
proof -
  have a: "dict_lmdb_lookup P dict w name = Return p (dict1, w1) \<and> p \<noteq> NULL \<longrightarrow>
      p = STR_VAL_BUF \<and> key_buf dict1 = key_buf dict \<and>
      ((DICT_FLAG_TRY1NULL \<in> flags dict \<and> resolved DICT_FLAG_TRY1NULL dict1 \<and>
         (\<exists>v. map_of (db (slmdb dict)) (probe_key P dict name DICT_FLAG_TRY1NULL) = Some v
               \<and> val_buf dict1 = SCOPY (val_buf dict) v))
       \<or> (DICT_FLAG_TRY0NULL \<in> flags dict \<and> resolved DICT_FLAG_TRY0NULL dict1 \<and>
         (\<exists>v. map_of (db (slmdb dict)) (probe_key P dict name DICT_FLAG_TRY0NULL) = Some v
               \<and> val_buf dict1 = SCOPY (val_buf dict) v)))"
    using lookup_overwrites [of P dict w name p dict1 w1] by (intro impI) (erule conjE, blast)
  have b: "dict_lmdb_sequence dict w fn key0 value0 = Return (0, k, v) (dict2, w2) \<longrightarrow>
      k = STR_KEY_BUF \<and>
      (\<exists>i. i < length (db (slmdb dict)) \<and> cursor (slmdb dict2) = Some i
         \<and> key_buf dict2 = SCOPY (key_buf dict) (fst (db (slmdb dict) ! i))
         \<and> (snd (db (slmdb dict) ! i) \<noteq> [] \<longrightarrow>
               v = STR_VAL_BUF
               \<and> val_buf dict2 = SCOPY (val_buf dict) (snd (db (slmdb dict) ! i)))
         \<and> (snd (db (slmdb dict) ! i) = [] \<longrightarrow> v = value0 \<and> val_buf dict2 = val_buf dict))"
    by (rule impI) (rule sequence_overwrites)
  from a b show ?thesis by (rule conjI)
qed

theorem result_buffers_overwritten_witness:
  "dict_lmdb_lookup ex_platform (ex_dict {DICT_FLAG_TRY1NULL} ex_entries) ex_world ''alice''
     = Return STR_VAL_BUF
         (fst (final_state (dict_lmdb_lookup ex_platform (ex_dict {DICT_FLAG_TRY1NULL} ex_entries) ex_world
                 ''alice'')),
          snd (final_state (dict_lmdb_lookup ex_platform (ex_dict {DICT_FLAG_TRY1NULL} ex_entries) ex_world
                 ''alice'')))
   \<and> val_buf (fst (final_state (dict_lmdb_lookup ex_platform (ex_dict {DICT_FLAG_TRY1NULL} ex_entries)
        ex_world ''alice''))) = Some ''1''
   \<and> key_buf (fst (final_state (dict_lmdb_lookup ex_platform (ex_dict {DICT_FLAG_TRY1NULL} ex_entries)
        ex_world ''alice''))) = None
   \<and> dict_lmdb_sequence (ex_dict {DICT_FLAG_TRY1NULL} ex_entries) ex_world DICT_SEQ_FUN_FIRST
        NULL NULL
     = Return (0, STR_KEY_BUF, STR_VAL_BUF)
         (fst (final_state (dict_lmdb_sequence (ex_dict {DICT_FLAG_TRY1NULL} ex_entries) ex_world
                 DICT_SEQ_FUN_FIRST NULL NULL)),
          snd (final_state (dict_lmdb_sequence (ex_dict {DICT_FLAG_TRY1NULL} ex_entries) ex_world
                 DICT_SEQ_FUN_FIRST NULL NULL)))
   \<and> key_buf (fst (final_state (dict_lmdb_sequence (ex_dict {DICT_FLAG_TRY1NULL} ex_entries)
        ex_world DICT_SEQ_FUN_FIRST NULL NULL))) = Some ''alice''
   \<and> val_buf (fst (final_state (dict_lmdb_sequence (ex_dict {DICT_FLAG_TRY1NULL} ex_entries)
        ex_world DICT_SEQ_FUN_FIRST NULL NULL))) = Some ''1''"
proof -
  let ?d = "ex_dict {DICT_FLAG_TRY1NULL} ex_entries"
  let ?o1 = "dict_lmdb_lookup ex_platform ?d ex_world ''alice''"
  let ?o2 = "dict_lmdb_sequence ?d ex_world DICT_SEQ_FUN_FIRST NULL NULL"
  have r1: "?o1 = Return STR_VAL_BUF (fst (final_state ?o1), snd (final_state ?o1))"
    by (simp add: ex_defs run_defs)
  have r2: "?o2 = Return (0, STR_KEY_BUF, STR_VAL_BUF) (fst (final_state ?o2), snd (final_state ?o2))"
    by (simp add: ex_defs run_defs)
  have d: "db (slmdb ?d) = [(''alice'' @ [NUL], ''1'' @ [NUL])]" "key_buf ?d = None"
    "val_buf ?d = None" "DICT_FLAG_TRY0NULL \<notin> flags ?d"
    "probe_key ex_platform ?d ''alice'' DICT_FLAG_TRY1NULL = ''alice'' @ [NUL]"
    by (simp_all add: ex_defs run_defs)
  have s: "SCOPY None (''alice'' @ [NUL]) = Some ''alice''" "SCOPY None (''1'' @ [NUL]) = Some ''1''"
    by (simp_all add: SCOPY_def vstring_strncpy_def NUL_def)
  from result_buffers_overwritten [where dict = ?d and w = ex_world and name = "''alice''"
      and P = ex_platform and p = STR_VAL_BUF and ?dict1.0 = "fst (final_state ?o1)" and ?w1.0 = "snd (final_state ?o1)"
      and fn = DICT_SEQ_FUN_FIRST and ?key0.0 = NULL and ?value0.0 = NULL
      and k = STR_KEY_BUF and v = STR_VAL_BUF
      and ?dict2.0 = "fst (final_state ?o2)" and ?w2.0 = "snd (final_state ?o2)"] r1 r2
  have a: "key_buf (fst (final_state ?o1)) = key_buf ?d"
    and b: "(DICT_FLAG_TRY1NULL \<in> flags ?d \<and>
         (\<exists>v. map_of (db (slmdb ?d)) (probe_key ex_platform ?d ''alice'' DICT_FLAG_TRY1NULL) = Some v
               \<and> val_buf (fst (final_state ?o1)) = SCOPY (val_buf ?d) v))
       \<or> (DICT_FLAG_TRY0NULL \<in> flags ?d \<and>
         (\<exists>v. map_of (db (slmdb ?d)) (probe_key ex_platform ?d ''alice'' DICT_FLAG_TRY0NULL) = Some v
               \<and> val_buf (fst (final_state ?o1)) = SCOPY (val_buf ?d) v))"
    and c: "\<exists>i. i < length (db (slmdb ?d))
         \<and> key_buf (fst (final_state ?o2)) = SCOPY (key_buf ?d) (fst (db (slmdb ?d) ! i))
         \<and> (snd (db (slmdb ?d) ! i) \<noteq> [] \<longrightarrow>
               val_buf (fst (final_state ?o2)) = SCOPY (val_buf ?d) (snd (db (slmdb ?d) ! i)))"
    by blast+
  from b d s have b': "val_buf (fst (final_state ?o1)) = Some ''1''" by auto
  from c d s have c': "key_buf (fst (final_state ?o2)) = Some ''alice''"
    "val_buf (fst (final_state ?o2)) = Some ''1''" by auto
  from a d have a': "key_buf (fst (final_state ?o1)) = None" by simp
  from r1 r2 a' b' c' show ?thesis by (intro conjI)
qed

section \<open>Opening the dictionary\<close>

lemma open_surrogate:
  assumes "fst (engine_open P env path open_flags dict_flags) \<noteq> 0"
  shows "dict_lmdb_open P env w path open_flags dict_flags =
      Return (DICT_SURROGATE (dict_surrogate DICT_TYPE_LMDB path open_flags dict_flags
        (''open database %s: %s'', [S (path @ ''.'' @ DICT_TYPE_LMDB),
            MDB_STRERROR (fst (engine_open P env path open_flags dict_flags))]))) w"
  using assms
  by (simp add: dict_lmdb_open_def Let_def case_prod_beta)

lemma handle_dict_DICT_DEBUG: "handle_dict (DICT_DEBUG d) = Some d"
  by (simp add: DICT_DEBUG_def)

lemma engine_open_session:
  "curr_limit (snd (engine_open P env path open_flags dict_flags)) = dict_lmdb_map_size env"
  "size_incr (snd (engine_open P env path open_flags dict_flags)) = DICT_LMDB_SIZE_INCR"
  "hard_limit (snd (engine_open P env path open_flags dict_flags)) = DICT_LMDB_SIZE_MAX P"
  by (simp_all add: engine_open_def slmdb_init_def slmdb_open_def Let_def)

lemma bundle_dict:
  "flags (fst (dict_lmdb_bundle P env w path mdb_path dict_flags s st)) =
     dict_flags \<union> {DICT_FLAG_FIXED}
       \<union> (if DICT_FLAG_TRY0NULL \<notin> dict_flags \<and> DICT_FLAG_TRY1NULL \<notin> dict_flags
          then {DICT_FLAG_TRY0NULL, DICT_FLAG_TRY1NULL} else {})"
  "curr_limit (slmdb (fst (dict_lmdb_bundle P env w path mdb_path dict_flags s st))) = curr_limit s"
  "size_incr (slmdb (fst (dict_lmdb_bundle P env w path mdb_path dict_flags s st))) = size_incr s"
  "hard_limit (slmdb (fst (dict_lmdb_bundle P env w path mdb_path dict_flags s st))) = hard_limit s"
  "api_retry_limit (slmdb (fst (dict_lmdb_bundle P env w path mdb_path dict_flags s st))) =
     DICT_LMDB_API_RETRY_LIMIT"
  "bulk_retry_limit (slmdb (fst (dict_lmdb_bundle P env w path mdb_path dict_flags s st))) =
     DICT_LMDB_BULK_RETRY_LIMIT P"
  by (auto simp: dict_lmdb_bundle_def Let_def)

lemma open_success:
  assumes "dict_lmdb_open P env w path open_flags dict_flags = Return h w'"
    and "handle_dict h = Some dict"
  shows "flags dict = dict_flags \<union> {DICT_FLAG_FIXED}
            \<union> (if DICT_FLAG_TRY0NULL \<notin> dict_flags \<and> DICT_FLAG_TRY1NULL \<notin> dict_flags
               then {DICT_FLAG_TRY0NULL, DICT_FLAG_TRY1NULL} else {})
       \<and> curr_limit (slmdb dict) = dict_lmdb_map_size env
       \<and> size_incr (slmdb dict) = DICT_LMDB_SIZE_INCR
       \<and> hard_limit (slmdb dict) = DICT_LMDB_SIZE_MAX P
       \<and> api_retry_limit (slmdb dict) = DICT_LMDB_API_RETRY_LIMIT
       \<and> bulk_retry_limit (slmdb dict) = DICT_LMDB_BULK_RETRY_LIMIT P"
  using assms
  apply (simp add: dict_lmdb_open_def Let_def case_prod_beta split: if_splits option.splits)
     apply (auto simp: handle_dict_DICT_DEBUG bundle_dict engine_open_session)
  done

lemma update_Return_resolved:
  assumes "dict_lmdb_update P dict w name val = Return st (dict1, w1)"
  shows "resolved (write_encoding P dict) dict1"
  using assms
  by (auto simp: dict_lmdb_update_def fold_key_def Let_def case_prod_beta resolved_def
      write_encoding_def split: if_splits sum.splits)

lemma bulk_limit:
  assumes "2 * sizeof_size_t P * CHAR_BIT P < 2 ^ 31"
  shows "DICT_LMDB_BULK_RETRY_LIMIT P = int (2 * sizeof_size_t P * CHAR_BIT P)"
proof -
  define n where "n = 2 * sizeof_size_t P * CHAR_BIT P"
  from assms have "int n < 2 ^ 31"
    unfolding n_def by (metis of_nat_less_iff of_nat_numeral of_nat_power)
  moreover have "- (2 ^ 31) \<le> int n"
    by (rule order_trans [of _ 0]) simp_all
  ultimately have "signed_take_bit 31 (int n) = int n"
    by (rule signed_take_bit_int_eq_self [rotated])
  moreover have "sint (word_of_nat n :: 32 word) = signed_take_bit 31 (int n)"
    by (simp add: signed_of_nat)
  ultimately have "sint (word_of_nat n :: 32 word) = int n" by simp
  then show ?thesis
    unfolding DICT_LMDB_BULK_RETRY_LIMIT_def n_def .
qed

text \<open>
  C4. For every path and flag combination for which the engine session initialization or
  the engine open fails (a non-zero status), \<^verbatim>\<open>dict_lmdb_open\<close> does not terminate the
  process: it returns, the world untouched, the stand-in handle that captured the
  diagnostic "open database" with the file name and the engine's error. On the stand-in
  (modelled from the spec), every operation, at any later time, returns a failure, sets the
  error indicator and logs a warning that carries that same diagnostic, and leaves the
  stand-in a stand-in with the same diagnostic.
\<close>

theorem open_failure_degraded:
  assumes "fst (engine_open P env path open_flags dict_flags) \<noteq> 0"
  shows "let status = fst (engine_open P env path open_flags dict_flags);
             sur = dict_surrogate DICT_TYPE_LMDB path open_flags dict_flags
                     (''open database %s: %s'',
                      [S (path @ ''.'' @ DICT_TYPE_LMDB), MDB_STRERROR status])
         in dict_lmdb_open P env w path open_flags dict_flags = Return (DICT_SURROGATE sur) w
            \<and> dict_surrogate_call (sur\<lparr>sur_error := n\<rparr>) w1 req =
                Return (surrogate_reply req)
                  (sur\<lparr>sur_error := DICT_ERR_RETRY\<rparr>, msg_warn w1 (surrogate_warning sur))
            \<and> failure_reply (surrogate_reply req)
            \<and> MDB_STRERROR status \<in> set (snd (surrogate_warning sur))"
proof -
  have "failure_reply (surrogate_reply req)"
    by (cases req) (simp_all add: DICT_STAT_ERROR_def)
  with open_surrogate [OF assms, of w] show ?thesis
    by (simp add: Let_def dict_surrogate_call_def surrogate_warning_def dict_surrogate_def)
qed

theorem open_failure_degraded_witness:
  "fst (engine_open ex_platform (ex_env 2) ''/nonexistent/aliases'' O_RDONLY {DICT_FLAG_LOCK}) = 2
   \<and> dict_lmdb_open ex_platform (ex_env 2) ex_world ''/nonexistent/aliases'' O_RDONLY
        {DICT_FLAG_LOCK}
      = Return (DICT_SURROGATE
          (dict_surrogate ''lmdb'' ''/nonexistent/aliases'' 0 {DICT_FLAG_LOCK}
             (''open database %s: %s'', [S ''/nonexistent/aliases.lmdb'', MDB_STRERROR 2])))
          ex_world
   \<and> dict_surrogate_call
        (dict_surrogate ''lmdb'' ''/nonexistent/aliases'' 0 {DICT_FLAG_LOCK}
           (''open database %s: %s'', [S ''/nonexistent/aliases.lmdb'', MDB_STRERROR 2]))
        ex_world (LOOKUP ''alice'')
      = Return (PTR NULL)
          ((dict_surrogate ''lmdb'' ''/nonexistent/aliases'' 0 {DICT_FLAG_LOCK}
              (''open database %s: %s'', [S ''/nonexistent/aliases.lmdb'', MDB_STRERROR 2]))
             \<lparr>sur_error := DICT_ERR_RETRY\<rparr>,
           msg_warn ex_world
             (''%s:%s is unavailable. open database %s: %s'',
              [S ''lmdb'', S ''/nonexistent/aliases'', S ''/nonexistent/aliases.lmdb'',
               MDB_STRERROR 2]))"
proof -
  have h: "fst (engine_open ex_platform (ex_env 2) ''/nonexistent/aliases'' O_RDONLY
                 {DICT_FLAG_LOCK}) = 2"
    by (simp add: engine_open_def slmdb_init_def slmdb_open_def ex_defs Let_def)
  then have h': "fst (engine_open ex_platform (ex_env 2) ''/nonexistent/aliases'' O_RDONLY
                 {DICT_FLAG_LOCK}) \<noteq> 0"
    by simp
  from open_failure_degraded [OF h', where w = ex_world and n = 0 and ?w1.0 = ex_world
      and req = "LOOKUP ''alice''"] h
  show ?thesis
    by (simp add: Let_def DICT_TYPE_LMDB_def O_RDONLY_def dict_surrogate_def
        surrogate_warning_def)
qed

text \<open>
  C8, as the spec states it, fails on the code: when the caller specifies neither
  encoding-try flag, open does not resolve the flags to the platform's default; the handle
  it returns has both flags set, on a platform whose default is the trailing sentinel as
  on any other. Nor is the default bound to be applied later: on such a handle, a lookup
  that hits an entry written without the sentinel resolves the handle to that encoding,
  and the update that follows writes without the sentinel.
\<close>

theorem open_sets_both_flags_counterexample:
  "platform_default ex_platform = DICT_FLAG_TRY1NULL
   \<and> map_option flags (opened_dict (dict_lmdb_open ex_platform (ex_env 0) ex_world
        ''/etc/aliases'' O_RDONLY {}))
      = Some {DICT_FLAG_TRY0NULL, DICT_FLAG_TRY1NULL, DICT_FLAG_FIXED}
   \<and> map_option (resolved (platform_default ex_platform))
        (opened_dict (dict_lmdb_open ex_platform (ex_env 0) ex_world
           ''/etc/aliases'' O_RDONLY {}))
      = Some False
   \<and> resolved DICT_FLAG_TRY0NULL
        (fst (ex_run {DICT_FLAG_TRY0NULL, DICT_FLAG_TRY1NULL, DICT_FLAG_FIXED} [(''alice'', ''1'')]
                [LOOKUP ''alice'', UPDATE ''bob'' ''2'']))
   \<and> db (slmdb (fst (ex_run {DICT_FLAG_TRY0NULL, DICT_FLAG_TRY1NULL, DICT_FLAG_FIXED}
                          [(''alice'', ''1'')] [LOOKUP ''alice'', UPDATE ''bob'' ''2''])))
      = [(''alice'', ''1''), (''bob'', ''2'')]"
proof -
  have "platform_default ex_platform = DICT_FLAG_TRY1NULL
   \<and> map_option flags (opened_dict (dict_lmdb_open ex_platform (ex_env 0) ex_world
        ''/etc/aliases'' O_RDONLY {}))
      = Some {DICT_FLAG_TRY0NULL, DICT_FLAG_TRY1NULL, DICT_FLAG_FIXED}
   \<and> map_option (resolved (platform_default ex_platform))
        (opened_dict (dict_lmdb_open ex_platform (ex_env 0) ex_world
           ''/etc/aliases'' O_RDONLY {}))
      = Some False"
    by (simp add: opened_dict_def dict_lmdb_open_def engine_open_def slmdb_init_def slmdb_open_def
        slmdb_fd_def dict_lmdb_bundle_def DICT_DEBUG_def ex_defs Let_def O_RDONLY_def
        platform_default_def resolved_def)
  moreover have "resolved DICT_FLAG_TRY0NULL
        (fst (ex_run {DICT_FLAG_TRY0NULL, DICT_FLAG_TRY1NULL, DICT_FLAG_FIXED} [(''alice'', ''1'')]
                [LOOKUP ''alice'', UPDATE ''bob'' ''2'']))
   \<and> db (slmdb (fst (ex_run {DICT_FLAG_TRY0NULL, DICT_FLAG_TRY1NULL, DICT_FLAG_FIXED}
                          [(''alice'', ''1'')] [LOOKUP ''alice'', UPDATE ''bob'' ''2''])))
      = [(''alice'', ''1''), (''bob'', ''2'')]"
    by (simp add: ex_defs run_defs)
  ultimately show ?thesis by blast
qed

text \<open>
  C8, amended. A handle that open returns for an opened database never has both
  encoding-try flags clear. If the caller specifies neither flag, open sets both and so
  leaves the encoding undecided; the platform's default convention (no trailing sentinel
  on the platform family that defines \<^verbatim>\<open>LMDB_NO_TRAILING_NULL\<close>, the trailing sentinel on
  the others) is applied by update: an update that returns on a handle \<open>d\<close> that has both
  flags set, as the opened handle has until an operation clears one, has resolved it to
  the default. If the caller specifies one or both, open keeps the caller's choice.
\<close>

theorem open_encoding_flags:
  assumes "dict_lmdb_open P env w path open_flags dict_flags = Return h w'"
    and "handle_dict h = Some dict"
  shows "(DICT_FLAG_TRY0NULL \<in> flags dict \<or> DICT_FLAG_TRY1NULL \<in> flags dict)
       \<and> (DICT_FLAG_TRY0NULL \<notin> dict_flags \<and> DICT_FLAG_TRY1NULL \<notin> dict_flags \<longrightarrow>
            DICT_FLAG_TRY0NULL \<in> flags dict \<and> DICT_FLAG_TRY1NULL \<in> flags dict)
       \<and> (DICT_FLAG_TRY0NULL \<in> flags d \<and> DICT_FLAG_TRY1NULL \<in> flags d
            \<and> dict_lmdb_update P d w1 name val = Return st (d1, w2) \<longrightarrow>
            resolved (platform_default P) d1)
       \<and> (DICT_FLAG_TRY0NULL \<in> dict_flags \<or> DICT_FLAG_TRY1NULL \<in> dict_flags \<longrightarrow>
            (DICT_FLAG_TRY0NULL \<in> flags dict) = (DICT_FLAG_TRY0NULL \<in> dict_flags)
            \<and> (DICT_FLAG_TRY1NULL \<in> flags dict) = (DICT_FLAG_TRY1NULL \<in> dict_flags))"
proof -
  from open_success [OF assms]
  have f: "flags dict = dict_flags \<union> {DICT_FLAG_FIXED}
            \<union> (if DICT_FLAG_TRY0NULL \<notin> dict_flags \<and> DICT_FLAG_TRY1NULL \<notin> dict_flags
               then {DICT_FLAG_TRY0NULL, DICT_FLAG_TRY1NULL} else {})"
    by simp
  have u: "resolved (platform_default P) d1"
    if "DICT_FLAG_TRY0NULL \<in> flags d" "DICT_FLAG_TRY1NULL \<in> flags d"
      "dict_lmdb_update P d w1 name val = Return st (d1, w2)"
  proof -
    from that(1,2) have "write_encoding P d = platform_default P"
      by (simp add: write_encoding_def platform_default_def)
    with update_Return_resolved [OF that(3)] show ?thesis by simp
  qed
  from f u show ?thesis by auto
qed

theorem open_encoding_flags_witness:
  "dict_lmdb_open ex_platform (ex_env 0) ex_world ''/etc/aliases'' O_RDONLY {DICT_FLAG_LOCK}
     = Return (DICT_LMDB (the (opened_dict (dict_lmdb_open ex_platform (ex_env 0) ex_world
                 ''/etc/aliases'' O_RDONLY {DICT_FLAG_LOCK})))) ex_world
   \<and> DICT_FLAG_TRY0NULL \<in> flags (the (opened_dict (dict_lmdb_open ex_platform (ex_env 0)
        ex_world ''/etc/aliases'' O_RDONLY {DICT_FLAG_LOCK})))
   \<and> DICT_FLAG_TRY1NULL \<in> flags (the (opened_dict (dict_lmdb_open ex_platform (ex_env 0)
        ex_world ''/etc/aliases'' O_RDONLY {DICT_FLAG_LOCK})))
   \<and> returns (dict_lmdb_update ex_platform
        (the (opened_dict (dict_lmdb_open ex_platform (ex_env 0) ex_world ''/etc/aliases''
           O_RDONLY {DICT_FLAG_LOCK}))) ex_world ''alice'' ''1'')
   \<and> resolved DICT_FLAG_TRY1NULL
        (fst (final_state (dict_lmdb_update ex_platform
           (the (opened_dict (dict_lmdb_open ex_platform (ex_env 0) ex_world ''/etc/aliases''
              O_RDONLY {DICT_FLAG_LOCK}))) ex_world ''alice'' ''1'')))
   \<and> dict_lmdb_open ex_platform (ex_env 0) ex_world ''/etc/aliases'' O_RDONLY {DICT_FLAG_TRY0NULL}
     = Return (DICT_LMDB (the (opened_dict (dict_lmdb_open ex_platform (ex_env 0) ex_world
                 ''/etc/aliases'' O_RDONLY {DICT_FLAG_TRY0NULL})))) ex_world
   \<and> DICT_FLAG_TRY0NULL \<in> flags (the (opened_dict (dict_lmdb_open ex_platform (ex_env 0)
        ex_world ''/etc/aliases'' O_RDONLY {DICT_FLAG_TRY0NULL})))
   \<and> DICT_FLAG_TRY1NULL \<notin> flags (the (opened_dict (dict_lmdb_open ex_platform (ex_env 0)
        ex_world ''/etc/aliases'' O_RDONLY {DICT_FLAG_TRY0NULL})))"
proof -
  let ?o2 = "dict_lmdb_open ex_platform (ex_env 0) ex_world ''/etc/aliases'' O_RDONLY
              {DICT_FLAG_TRY0NULL}"
  let ?d2 = "the (opened_dict ?o2)"
  have g1: "?o2 = Return (DICT_LMDB ?d2) ex_world"
    by (simp add: opened_dict_def dict_lmdb_open_def engine_open_def slmdb_init_def slmdb_open_def
        slmdb_fd_def dict_lmdb_bundle_def DICT_DEBUG_def ex_defs Let_def O_RDONLY_def
        DICT_TYPE_LMDB_def)
  have g2: "handle_dict (DICT_LMDB ?d2) = Some ?d2" by simp
  from open_encoding_flags [OF g1 g2, where d = ?d2 and ?w1.0 = ex_world and name = "''alice''"
      and val = "''1''" and st = 0 and ?d1.0 = ?d2 and ?w2.0 = ex_world]
  have g: "DICT_FLAG_TRY0NULL \<in> flags ?d2" "DICT_FLAG_TRY1NULL \<notin> flags ?d2"
    by simp_all
  let ?o = "dict_lmdb_open ex_platform (ex_env 0) ex_world ''/etc/aliases'' O_RDONLY
              {DICT_FLAG_LOCK}"
  let ?d = "the (opened_dict ?o)"
  let ?u = "dict_lmdb_update ex_platform ?d ex_world ''alice'' ''1''"
  have d: "opened_dict ?o = Some (fst (dict_lmdb_bundle ex_platform (ex_env 0) ex_world
             ''/etc/aliases'' ''/etc/aliases.lmdb'' {DICT_FLAG_LOCK}
             (snd (engine_open ex_platform (ex_env 0) ''/etc/aliases'' O_RDONLY {DICT_FLAG_LOCK}))
             \<lparr>st_mtime = 0, st_uid = 0\<rparr>))"
    by (simp add: opened_dict_def dict_lmdb_open_def engine_open_def slmdb_init_def slmdb_open_def
        slmdb_fd_def dict_lmdb_bundle_def DICT_DEBUG_def ex_defs Let_def O_RDONLY_def
        DICT_TYPE_LMDB_def)
  have h1: "?o = Return (DICT_LMDB ?d) ex_world"
    by (simp add: opened_dict_def dict_lmdb_open_def engine_open_def slmdb_init_def slmdb_open_def
        slmdb_fd_def dict_lmdb_bundle_def DICT_DEBUG_def ex_defs Let_def O_RDONLY_def
        DICT_TYPE_LMDB_def)
  have h2: "handle_dict (DICT_LMDB ?d) = Some ?d" by simp
  have h3: "?u = Return (the (result_of ?u)) (fst (final_state ?u), snd (final_state ?u))"
    and r: "returns ?u"
    unfolding d
    by (simp_all add: dict_lmdb_bundle_def engine_open_def slmdb_init_def slmdb_open_def
        slmdb_fd_def DICT_LMDB_API_RETRY_LIMIT_def
        DICT_LMDB_SIZE_INCR_def DICT_TYPE_LMDB_def O_RDONLY_def ex_defs run_defs)
  have p: "platform_default ex_platform = DICT_FLAG_TRY1NULL"
    by (simp add: platform_default_def ex_defs)
  from open_encoding_flags [OF h1 h2, where d = ?d and ?w1.0 = ex_world and name = "''alice''"
      and val = "''1''" and st = "the (result_of ?u)" and ?d1.0 = "fst (final_state ?u)"
      and ?w2.0 = "snd (final_state ?u)"] h3 p
  have "DICT_FLAG_TRY0NULL \<in> flags ?d" "DICT_FLAG_TRY1NULL \<in> flags ?d"
    "resolved DICT_FLAG_TRY1NULL (fst (final_state ?u))"
    by simp_all
  with h1 r g1 g show ?thesis by (intro conjI)
qed

text \<open>
  C9. On every successful open, the engine session of the handle is configured with the
  initial map size \<^verbatim>\<open>dict_lmdb_map_size\<close>, the growth factor 2, the maximum map size
  \<^verbatim>\<open>SSIZE_T_MAX\<close> (the largest value of the signed size type, all bits but the sign bit), the
  retry limit 2 for an API call and, for a bulk transaction, the retry limit of 2 times the
  number of bits of \<^verbatim>\<open>size_t\<close> (where that number fits the \<^verbatim>\<open>int\<close> it is cast to).
\<close>

theorem open_engine_configuration:
  assumes "dict_lmdb_open P env w path open_flags dict_flags = Return h w'"
    and "handle_dict h = Some dict"
    and "2 * sizeof_size_t P * CHAR_BIT P < 2 ^ 31"
  shows "curr_limit (slmdb dict) = dict_lmdb_map_size env
       \<and> size_incr (slmdb dict) = 2
       \<and> hard_limit (slmdb dict) = SSIZE_T_MAX P
       \<and> SSIZE_T_MAX P = 2 ^ (sizeof_size_t P * CHAR_BIT P - 1) - 1
       \<and> api_retry_limit (slmdb dict) = 2
       \<and> bulk_retry_limit (slmdb dict) = 2 * int (sizeof_size_t P * CHAR_BIT P)"
  using open_success [OF assms(1,2)] bulk_limit [OF assms(3)]
  by (simp add: DICT_LMDB_SIZE_INCR_def DICT_LMDB_SIZE_MAX_def DICT_LMDB_API_RETRY_LIMIT_def
      SSIZE_T_MAX_def mult.assoc)

theorem open_engine_configuration_witness:
  "dict_lmdb_open ex_platform (ex_env 0) ex_world ''/etc/aliases'' O_RDONLY {DICT_FLAG_LOCK}
     = Return (DICT_LMDB (the (opened_dict (dict_lmdb_open ex_platform (ex_env 0) ex_world
                 ''/etc/aliases'' O_RDONLY {DICT_FLAG_LOCK})))) ex_world
   \<and> 2 * sizeof_size_t ex_platform * CHAR_BIT ex_platform < (2 :: nat) ^ 31
   \<and> curr_limit (slmdb (the (opened_dict (dict_lmdb_open ex_platform (ex_env 0) ex_world
        ''/etc/aliases'' O_RDONLY {DICT_FLAG_LOCK})))) = 8192
   \<and> size_incr (slmdb (the (opened_dict (dict_lmdb_open ex_platform (ex_env 0) ex_world
        ''/etc/aliases'' O_RDONLY {DICT_FLAG_LOCK})))) = 2
   \<and> hard_limit (slmdb (the (opened_dict (dict_lmdb_open ex_platform (ex_env 0) ex_world
        ''/etc/aliases'' O_RDONLY {DICT_FLAG_LOCK})))) = 9223372036854775807
   \<and> api_retry_limit (slmdb (the (opened_dict (dict_lmdb_open ex_platform (ex_env 0) ex_world
        ''/etc/aliases'' O_RDONLY {DICT_FLAG_LOCK})))) = 2
   \<and> bulk_retry_limit (slmdb (the (opened_dict (dict_lmdb_open ex_platform (ex_env 0) ex_world
        ''/etc/aliases'' O_RDONLY {DICT_FLAG_LOCK})))) = 128"
proof -
  let ?o = "dict_lmdb_open ex_platform (ex_env 0) ex_world ''/etc/aliases'' O_RDONLY
              {DICT_FLAG_LOCK}"
  let ?d = "the (opened_dict ?o)"
  have h1: "?o = Return (DICT_LMDB ?d) ex_world"
    by (simp add: opened_dict_def dict_lmdb_open_def engine_open_def slmdb_init_def slmdb_open_def
        slmdb_fd_def dict_lmdb_bundle_def DICT_DEBUG_def ex_defs Let_def O_RDONLY_def
        DICT_TYPE_LMDB_def)
  have h2: "handle_dict (DICT_LMDB ?d) = Some ?d" by simp
  have h3: "2 * sizeof_size_t ex_platform * CHAR_BIT ex_platform < (2 :: nat) ^ 31"
    by (simp add: ex_defs)
  have e: "dict_lmdb_map_size (ex_env 0) = 8192"
    "SSIZE_T_MAX ex_platform = 9223372036854775807"
    "2 * int (sizeof_size_t ex_platform * CHAR_BIT ex_platform) = 128"
    by (simp_all add: ex_defs SSIZE_T_MAX_def)
  from open_engine_configuration [OF h1 h2 h3] e
  have "curr_limit (slmdb ?d) = 8192" "size_incr (slmdb ?d) = 2"
    "hard_limit (slmdb ?d) = 9223372036854775807" "api_retry_limit (slmdb ?d) = 2"
    "bulk_retry_limit (slmdb ?d) = 128"
    by simp_all
  with h1 h3 show ?thesis by (intro conjI)
qed

end
